theory Spec2Isabelle
  imports Complex_Main
begin

section \<open>The Gaussian FCHK codec of IOData: \<^verbatim>\<open>iodata/formats/fchk.py\<close>\<close>

text \<open>
  The functions of \<^verbatim>\<open>fchk.py\<close> are embedded as HOL functions. A leading underscore of
  a Python name is dropped (\<^verbatim>\<open>_load_fchk_field\<close> is \<open>load_fchk_field\<close>). Exceptions are
  values of the type \<open>error\<close>, and a function that can raise returns \<open>error + 'a\<close>.
  The line iterator \<^verbatim>\<open>lit\<close> is the list of the lines not yet read; a function that reads
  from it returns the lines that remain.

  Python floats are idealised as \<open>real\<close> (no rounding, no inf or nan), and strings as
  lists of ASCII characters.
\<close>

subsection \<open>Exceptions and values\<close>

datatype error =
    StopIteration
  | LitError string
  | ValueError
  | KeyError string
  | IndexError
  | TypeError
  | AttributeError
  | AssertionError
  | UnboundLocalError
  | Unmodelled

text \<open>
  \<open>LitError msg\<close> is what \<^verbatim>\<open>lit.error(msg)\<close> raises.

  Modelled from the spec: \<^verbatim>\<open>LineIterator.error\<close> (module \<^verbatim>\<open>utils\<close>, not among the
  sources) raises the fatal format error of the reader, the one every malformed header,
  missing \<^verbatim>\<open>N=\<close> marker and unparsable token is reported with; the file position it adds
  to the message is left out.

  \<open>Unmodelled\<close> is no Python exception: it marks the few places where a field has a type
  that Python would accept in some way the typed model does not follow (a real where
  an integer is expected). Nothing is claimed about Python there.
\<close>

text \<open>The two kinds of error the specification speaks of.\<close>

fun ParseError :: "error \<Rightarrow> bool" where
  "ParseError (LitError msg) = True"
| "ParseError e = False"

fun ValidationError :: "error \<Rightarrow> bool" where
  "ValidationError ValueError = True"
| "ValidationError AssertionError = True"
| "ValidationError e = False"

datatype dtype = DInt | DFloat

datatype fvalue =
    IntV int
  | RealV real
  | IntArr "int list"
  | RealArr "real list"
  | StrV string

subsection \<open>The Python library\<close>

text \<open>
  \<^verbatim>\<open>fnmatch\<close>, \<^verbatim>\<open>int()\<close> and \<^verbatim>\<open>float()\<close> belong to Python, and \<^verbatim>\<open>amu\<close> to the module
  \<^verbatim>\<open>utils\<close>: they are parameters of the model, collected in a record. \<open>to_int L w\<close> is
  \<open>None\<close> where \<^verbatim>\<open>int(w)\<close> raises ValueError, and likewise \<open>to_float\<close>.
\<close>

record pylib =
  fnmatch :: "string \<Rightarrow> string \<Rightarrow> bool"
  to_int :: "string \<Rightarrow> int option"
  to_float :: "string \<Rightarrow> real option"
  amu :: real

definition isspace :: "char \<Rightarrow> bool" where
  "isspace c = (c \<in> set [CHR '' '', CHR 0x09, CHR 0x0A, CHR 0x0B, CHR 0x0C, CHR 0x0D,
                           CHR 0x1C, CHR 0x1D, CHR 0x1E, CHR 0x1F])"

text \<open>\<^verbatim>\<open>s.split()\<close>: the maximal runs of characters that are not whitespace; \<open>w\<close> is the
  run being read.\<close>

fun split_from :: "string \<Rightarrow> string \<Rightarrow> string list" where
  "split_from w [] = (if w = [] then [] else [w])"
| "split_from w (c # cs) =
     (if isspace c then (if w = [] then split_from [] cs else w # split_from [] cs)
      else split_from (w @ [c]) cs)"

definition str_split :: "string \<Rightarrow> string list" where
  "str_split s = split_from [] s"

definition str_strip :: "string \<Rightarrow> string" where
  "str_strip s = rev (dropWhile isspace (rev (dropWhile isspace s)))"

subsection \<open>Dictionaries\<close>

text \<open>
  A Python dict keeps its keys in the order of their first insertion: an association
  list with distinct keys. \<open>dict_set\<close> is \<^verbatim>\<open>d[k] = v\<close>, \<open>dict_get\<close> is \<^verbatim>\<open>d.get(k)\<close>,
  \<open>dict_item\<close> is \<^verbatim>\<open>d[k]\<close> and \<open>dict_pop\<close> is \<^verbatim>\<open>d.pop(k)\<close> with the value dropped.
\<close>

fun dict_set :: "('k \<times> 'v) list \<Rightarrow> 'k \<Rightarrow> 'v \<Rightarrow> ('k \<times> 'v) list" where
  "dict_set [] k v = [(k, v)]"
| "dict_set ((k', v') # d) k v = (if k' = k then (k, v) # d else (k', v') # dict_set d k v)"

fun dict_get :: "('k \<times> 'v) list \<Rightarrow> 'k \<Rightarrow> 'v option" where
  "dict_get [] k = None"
| "dict_get ((k', v') # d) k = (if k' = k then Some v' else dict_get d k)"

definition dict_item :: "(string \<times> 'v) list \<Rightarrow> string \<Rightarrow> error + 'v" where
  "dict_item d k = (case dict_get d k of None \<Rightarrow> Inl (KeyError k) | Some v \<Rightarrow> Inr v)"

definition dict_pop :: "(string \<times> 'v) list \<Rightarrow> string \<Rightarrow> error + (string \<times> 'v) list" where
  "dict_pop d k = (case dict_get d k of None \<Rightarrow> Inl (KeyError k)
                   | Some v \<Rightarrow> Inr (filter (\<lambda>kv. fst kv \<noteq> k) d))"

subsection \<open>The field reader: \<^verbatim>\<open>_load_fchk_field\<close>\<close>

text \<open>The type code of a header line: \<^verbatim>\<open>words[0] == 'I'\<close> gives \<^verbatim>\<open>int\<close>, \<^verbatim>\<open>'R'\<close> gives
  \<^verbatim>\<open>float\<close>, anything else makes the reader go to the next line.\<close>

definition type_code :: "string \<Rightarrow> dtype option" where
  "type_code w = (if w = ''I'' then Some DInt else if w = ''R'' then Some DFloat else None)"

text \<open>\<^verbatim>\<open>label_patterns is None or any(fnmatch(label, p) for p in label_patterns)\<close>\<close>

definition label_matches :: "pylib \<Rightarrow> string list option \<Rightarrow> string \<Rightarrow> bool" where
  "label_matches L label_patterns label =
     (case label_patterns of None \<Rightarrow> True | Some ps \<Rightarrow> list_ex (fnmatch L label) ps)"

text \<open>\<^verbatim>\<open>datatype(words[1])\<close> for a scalar field.\<close>

fun scalar_of :: "pylib \<Rightarrow> dtype \<Rightarrow> string \<Rightarrow> fvalue option" where
  "scalar_of L DInt w = map_option IntV (to_int L w)"
| "scalar_of L DFloat w = map_option RealV (to_float L w)"

text \<open>\<^verbatim>\<open>value[counter] = int(word)\<close> on an array of 64-bit integers: a Python integer out
  of range raises OverflowError, which the reader treats like ValueError.\<close>

definition to_int64 :: "pylib \<Rightarrow> string \<Rightarrow> int option" where
  "to_int64 L w = (case to_int L w of None \<Rightarrow> None
     | Some i \<Rightarrow> if - (2 ^ 63) \<le> i \<and> i < 2 ^ 63 then Some i else None)"

text \<open>
  The inner loop \<^verbatim>\<open>while counter < length\<close>. \<open>n\<close> is \<^verbatim>\<open>length - counter\<close>, \<open>conv\<close> is the
  conversion of one word, \<open>vs\<close> are the values stored so far (the array is returned
  only when every position has been assigned, so the values are collected in order).
  \<^verbatim>\<open>words.pop(0)\<close> on the empty list, after a line with no word, raises IndexError.
\<close>

fun array_loop :: "(string \<Rightarrow> 'a option) \<Rightarrow> nat \<Rightarrow> string list \<Rightarrow> string list \<Rightarrow> 'a list
    \<Rightarrow> (error + 'a list) \<times> string list" where
  "array_loop conv 0 words lit vs = (Inr vs, lit)"
| "array_loop conv (Suc n) [] [] vs = (Inl StopIteration, [])"
| "array_loop conv (Suc n) [] (line # lit) vs =
     (case str_split line of
        [] \<Rightarrow> (Inl IndexError, lit)
      | word # words \<Rightarrow>
          (case conv word of
             None \<Rightarrow> (Inl (LitError (''Could not interpret: '' @ word)), lit)
           | Some v \<Rightarrow> array_loop conv n words lit (vs @ [v])))"
| "array_loop conv (Suc n) (word # words) lit vs =
     (case conv word of
        None \<Rightarrow> (Inl (LitError (''Could not interpret: '' @ word)), lit)
      | Some v \<Rightarrow> array_loop conv n words lit (vs @ [v]))"

text \<open>The array branch, after \<^verbatim>\<open>length = int(words[2])\<close>; \<^verbatim>\<open>np.zeros\<close> of a negative
  length raises ValueError.\<close>

definition read_array :: "pylib \<Rightarrow> dtype \<Rightarrow> int \<Rightarrow> string list \<Rightarrow> (error + fvalue) \<times> string list" where
  "read_array L dt len lit =
     (if len < 0 then (Inl ValueError, lit)
      else case dt of
        DInt \<Rightarrow> (case array_loop (to_int64 L) (nat len) [] lit [] of
                   (Inl e, lit') \<Rightarrow> (Inl e, lit')
                 | (Inr vs, lit') \<Rightarrow> (Inr (IntArr vs), lit'))
      | DFloat \<Rightarrow> (case array_loop (to_float L) (nat len) [] lit [] of
                   (Inl e, lit') \<Rightarrow> (Inl e, lit')
                 | (Inr vs, lit') \<Rightarrow> (Inr (RealArr vs), lit')))"

text \<open>What the reader does with a header line whose label matches: \<^verbatim>\<open>None\<close> when the
  number of words is neither 2 nor 3, and the reader goes to the next line.\<close>

definition read_field :: "pylib \<Rightarrow> dtype \<Rightarrow> string \<Rightarrow> string list \<Rightarrow> string list
    \<Rightarrow> ((error + string \<times> fvalue) \<times> string list) option" where
  "read_field L dt label words lit =
     (if length words = 2 then
        (case scalar_of L dt (words ! 1) of
           Some v \<Rightarrow> Some (Inr (label, v), lit)
         | None \<Rightarrow> Some (Inl (LitError (''Could not interpret: '' @ words ! 1)), lit))
      else if length words = 3 then
        (if words ! 1 \<noteq> ''N='' then Some (Inl (LitError ''Expected N= not found.''), lit)
         else case to_int L (words ! 2) of
           None \<Rightarrow> Some (Inl ValueError, lit)
         | Some len \<Rightarrow>
             (case read_array L dt len lit of
                (Inl e, lit') \<Rightarrow> Some (Inl e, lit')
              | (Inr v, lit') \<Rightarrow> Some (Inr (label, v), lit')))
      else None)"

fun load_fchk_field :: "pylib \<Rightarrow> string list option \<Rightarrow> string list
    \<Rightarrow> (error + string \<times> fvalue) \<times> string list" where
  "load_fchk_field L label_patterns [] = (Inl StopIteration, [])"
| "load_fchk_field L label_patterns (line # lit) =
     (let label = str_strip (take 43 line); words = str_split (drop 43 line) in
      case words of
        [] \<Rightarrow> load_fchk_field L label_patterns lit
      | w0 # ws \<Rightarrow>
          (case type_code w0 of
             None \<Rightarrow> load_fchk_field L label_patterns lit
           | Some dt \<Rightarrow>
               if \<not> label_matches L label_patterns label
               then load_fchk_field L label_patterns lit
               else (case read_field L dt label words lit of
                       Some r \<Rightarrow> r
                     | None \<Rightarrow> load_fchk_field L label_patterns lit)))"

text \<open>The reader consumes at least the header line of the field it returns, and it
  raises StopIteration only at the end of the input.\<close>

lemma array_loop_length:
  "array_loop conv n words lit vs = (r, lit') \<Longrightarrow> length lit' \<le> length lit"
  by (induction conv n words lit vs rule: array_loop.induct)
     (fastforce split: list.splits option.splits)+

lemma array_loop_stop:
  "array_loop conv n words lit vs = (Inl StopIteration, lit') \<Longrightarrow> lit' = []"
  by (induction conv n words lit vs rule: array_loop.induct)
     (auto split: list.splits option.splits)

lemma read_array_length:
  "read_array L dt len lit = (r, lit') \<Longrightarrow> length lit' \<le> length lit"
  by (auto simp: read_array_def split: if_splits dtype.splits prod.splits sum.splits
      dest: array_loop_length)

lemma read_array_stop:
  "read_array L dt len lit = (Inl StopIteration, lit') \<Longrightarrow> lit' = []"
  by (auto simp: read_array_def split: if_splits dtype.splits prod.splits sum.splits
      dest: array_loop_stop)

lemma read_field_length:
  "read_field L dt label words lit = Some (r, lit') \<Longrightarrow> length lit' \<le> length lit"
  by (auto simp: read_field_def split: if_splits option.splits prod.splits sum.splits
      dest: read_array_length)

lemma read_field_stop:
  "read_field L dt label words lit = Some (Inl StopIteration, lit') \<Longrightarrow> lit' = []"
  by (auto simp: read_field_def split: if_splits option.splits prod.splits sum.splits
      dest: read_array_stop)

lemma load_fchk_field_length:
  "load_fchk_field L label_patterns lit = (r, lit') \<Longrightarrow> length lit' \<le> length lit"
proof (induction lit)
  case Nil
  then show ?case by simp
next
  case (Cons line lit)
  then show ?case
    by (fastforce simp: Let_def split: list.splits option.splits if_splits
        dest: read_field_length)
qed

lemma load_fchk_field_consumes:
  "load_fchk_field L label_patterns lit = (Inr x, lit') \<Longrightarrow> length lit' < length lit"
  by (cases lit)
     (fastforce simp: Let_def split: list.splits option.splits if_splits
        dest: read_field_length load_fchk_field_length)+

lemma load_fchk_field_stop:
  "load_fchk_field L label_patterns lit = (Inl StopIteration, lit') \<Longrightarrow> lit' = []"
proof (induction lit)
  case Nil
  then show ?case by simp
next
  case (Cons line lit)
  then show ?case
    by (auto simp: Let_def split: list.splits option.splits if_splits
        dest: read_field_stop)
qed

subsection \<open>The field store: \<^verbatim>\<open>_load_fchk_low\<close>\<close>

type_synonym fields = "(string \<times> fvalue) list"

text \<open>The loop \<^verbatim>\<open>while True\<close> of \<^verbatim>\<open>_load_fchk_low\<close>: StopIteration ends it, any other
  exception leaves the function.\<close>

function fields_loop :: "pylib \<Rightarrow> string list option \<Rightarrow> string list \<Rightarrow> fields
    \<Rightarrow> (error + fields) \<times> string list" where
  "fields_loop L label_patterns lit result =
     (case load_fchk_field L label_patterns lit of
        (Inl e, lit') \<Rightarrow> if e = StopIteration then (Inr result, lit') else (Inl e, lit')
      | (Inr (label, v), lit') \<Rightarrow> fields_loop L label_patterns lit' (dict_set result label v))"
  by pat_completeness auto
termination
  by (relation "measure (\<lambda>(L, label_patterns, lit, result). length lit)")
     (auto dest: load_fchk_field_consumes [OF sym])

declare fields_loop.simps [simp del]

definition load_fchk_low :: "pylib \<Rightarrow> string list option \<Rightarrow> string list
    \<Rightarrow> (error + fields) \<times> string list" where
  "load_fchk_low L label_patterns lit =
     (case lit of
        [] \<Rightarrow> (Inl StopIteration, [])
      | title # lit1 \<Rightarrow>
          (case lit1 of
             [] \<Rightarrow> (Inl StopIteration, [])
           | line2 # lit2 \<Rightarrow>
               (let result = [(''title'', StrV (str_strip title))];
                    words = str_split line2
                in if length words = 3 then
                     fields_loop L label_patterns lit2
                       (dict_set (dict_set (dict_set result
                          ''command'' (StrV (words ! 0)))
                          ''lot'' (StrV (words ! 1)))
                          ''obasis_name'' (StrV (words ! 2)))
                   else if length words = 2 then
                     fields_loop L label_patterns lit2
                       (dict_set (dict_set result
                          ''command'' (StrV (words ! 0)))
                          ''lot'' (StrV (words ! 1)))
                   else (Inl (LitError
                     ''The second line of the FCHK file should contain two or three words.''),
                     lit2))))"

subsection \<open>Numeric helpers\<close>

text \<open>Running one step after another, as long as none raises.\<close>

definition bnd :: "error + 'a \<Rightarrow> ('a \<Rightarrow> error + 'b) \<Rightarrow> error + 'b" where
  "bnd r f = (case r of Inl e \<Rightarrow> Inl e | Inr x \<Rightarrow> f x)"

text \<open>\<^verbatim>\<open>xs[i]\<close> with \<open>i\<close> not negative.\<close>

definition item :: "'a list \<Rightarrow> nat \<Rightarrow> error + 'a" where
  "item xs i = (if i < length xs then Inr (xs ! i) else Inl IndexError)"

text \<open>A two-dimensional array is the list of its rows.\<close>

type_synonym matrix = "real list list"

text \<open>\<^verbatim>\<open>np.round\<close> rounds a half to the even neighbour.\<close>

definition np_round :: "real \<Rightarrow> int" where
  "np_round x =
     (let f = \<lfloor>x\<rfloor>; d = x - of_int f
      in if d < 1 / 2 then f else if 1 / 2 < d then f + 1 else if even f then f else f + 1)"

text \<open>
  Assigning the one-dimensional array \<open>vs\<close> to a slice of \<open>n\<close> places: a value of the same
  length is stored as it is, a single value is repeated, and anything else cannot be
  broadcast (ValueError).
\<close>

definition broadcast_to :: "nat \<Rightarrow> 'a list \<Rightarrow> error + 'a list" where
  "broadcast_to n vs =
     (if length vs = n then Inr vs
      else if length vs = 1 then Inr (replicate n (hd vs))
      else Inl ValueError)"

text \<open>\<^verbatim>\<open>result[irow, :len(vs)] = vs\<close> and \<^verbatim>\<open>result[:len(vs), icol] = vs\<close>.\<close>

definition set_row_prefix :: "'a list list \<Rightarrow> nat \<Rightarrow> 'a list \<Rightarrow> 'a list list" where
  "set_row_prefix M irow vs = M[irow := vs @ drop (length vs) (M ! irow)]"

definition set_col_prefix :: "'a list list \<Rightarrow> nat \<Rightarrow> 'a list \<Rightarrow> 'a list list" where
  "set_col_prefix M icol vs =
     map (\<lambda>k. if k < length vs then (M ! k)[icol := vs ! k] else M ! k) [0..<length M]"

text \<open>The loop \<^verbatim>\<open>for irow in range(nrow)\<close> of \<^verbatim>\<open>_triangle_to_dense\<close>; \<open>bgn\<close> is the variable
  \<^verbatim>\<open>begin\<close> and \<open>fin\<close> is \<^verbatim>\<open>end\<close>. A slice is cut to the length of the array.\<close>

fun dense_rows :: "real list \<Rightarrow> nat list \<Rightarrow> nat \<Rightarrow> matrix \<Rightarrow> error + matrix" where
  "dense_rows triangle [] bgn result = Inr result"
| "dense_rows triangle (irow # rows) bgn result =
     (let fin = bgn + irow + 1;
          seg = take (fin - bgn) (drop bgn triangle)
      in bnd (broadcast_to (irow + 1) seg) (\<lambda>vs.
           dense_rows triangle rows fin
             (set_col_prefix (set_row_prefix result irow vs) irow vs)))"

definition triangle_to_dense :: "real list \<Rightarrow> error + matrix" where
  "triangle_to_dense triangle =
     (let nrow = nat (np_round ((sqrt (1 + 8 * real (length triangle)) - 1) / 2))
      in dense_rows triangle [0..<nrow] 0 (replicate nrow (replicate nrow 0)))"

text \<open>
  \<^verbatim>\<open>_get_TriangleMat\<close>: the two loops over \<^verbatim>\<open>range(nrow)\<close>, with the state \<open>(newmat, k)\<close>.
  \<^verbatim>\<open>matrix[i][j]\<close> raises IndexError when the row has no column \<open>j\<close> (a matrix with fewer
  columns than rows; the message printed for a matrix that is not square does not stop
  the function).
\<close>

fun triangle_cols :: "matrix \<Rightarrow> nat \<Rightarrow> nat list \<Rightarrow> real list \<times> nat \<Rightarrow> error + real list \<times> nat" where
  "triangle_cols M i [] st = Inr st"
| "triangle_cols M i (j # js) (newmat, k) =
     (if j \<le> i then
        bnd (item (M ! i) j) (\<lambda>x. triangle_cols M i js (newmat[k := x], k + 1))
      else triangle_cols M i js (newmat, k))"

fun triangle_rows :: "matrix \<Rightarrow> nat \<Rightarrow> nat list \<Rightarrow> real list \<times> nat \<Rightarrow> error + real list \<times> nat" where
  "triangle_rows M nrow [] st = Inr st"
| "triangle_rows M nrow (i # is) st =
     bnd (triangle_cols M i [0..<nrow] st) (\<lambda>st'. triangle_rows M nrow is st')"

definition get_TriangleMat :: "matrix \<Rightarrow> error + real list" where
  "get_TriangleMat M =
     (let nrow = length M;
          newsize = (nrow * (nrow + 1)) div 2
      in bnd (triangle_rows M nrow [0..<nrow] (replicate newsize 0, 0))
           (\<lambda>(newmat, k). Inr newmat))"

text \<open>
  \<^verbatim>\<open>_sort_quadrupole\<close>: the six assignments in their order; the first index that the
  array does not have raises IndexError.
\<close>

definition sort_quadrupole :: "real list \<Rightarrow> error + real list" where
  "sort_quadrupole quadrupole =
     (if length quadrupole \<noteq> 0 then
        (let newquadrupole = replicate (length quadrupole) 0 in
         bnd (item quadrupole 0) (\<lambda>q0.
         bnd (item quadrupole 3) (\<lambda>q3.
         bnd (item quadrupole 5) (\<lambda>q5.
         bnd (item quadrupole 1) (\<lambda>q1.
         bnd (item quadrupole 2) (\<lambda>q2.
         bnd (item quadrupole 4) (\<lambda>q4.
           Inr (newquadrupole[0 := q0, 1 := q3, 2 := q5, 3 := q1, 4 := q2, 5 := q4]))))))))
      else Inr [])"

text \<open>Indexing with a list of indices, \<^verbatim>\<open>a[[i0, i1, ...]]\<close>, as \<^verbatim>\<open>load_one\<close> does for the
  quadrupole: the values at these indices, in this order.\<close>

definition take_indices :: "'a list \<Rightarrow> nat list \<Rightarrow> error + 'a list" where
  "take_indices a idx =
     (if list_all (\<lambda>i. i < length a) idx then Inr (map (\<lambda>i. a ! i) idx) else Inl IndexError)"

subsection \<open>Shells and their type codes: \<^verbatim>\<open>_get_TypeShell\<close>\<close>

text \<open>
  Modelled from the spec: the classes \<^verbatim>\<open>Shell\<close> and \<^verbatim>\<open>MolecularBasis\<close> (module \<^verbatim>\<open>basis\<close>,
  not among the sources). A shell has the index of its centre, one or two angular
  momenta, a kind for each of them (\<^verbatim>\<open>'c'\<close> Cartesian, \<^verbatim>\<open>'p'\<close> pure), its exponents, and a
  matrix of contraction coefficients with a row for each exponent and a column for each
  angular momentum. A basis has its shells; its number of basis functions \<^verbatim>\<open>nbasis\<close>,
  a property computed in \<^verbatim>\<open>basis\<close>, is taken as given.
\<close>

record Shell =
  icenter :: int
  angmoms :: "int list"
  kinds :: "string list"
  exponents :: "real list"
  coeffs :: matrix

record MolecularBasis =
  shells :: "Shell list"
  nbasis :: int

text \<open>\<^verbatim>\<open>a.size\<close> of a two-dimensional array.\<close>

definition matrix_size :: "'a list list \<Rightarrow> nat" where
  "matrix_size M = sum_list (map length M)"

text \<open>
  \<^verbatim>\<open>_get_TypeShell\<close>. The local variable \<^verbatim>\<open>kind\<close> is \<open>None\<close> as long as nothing has been
  assigned to it; \<^verbatim>\<open>return kind\<close> then raises UnboundLocalError.
\<close>

definition get_TypeShell :: "Shell \<Rightarrow> error + int" where
  "get_TypeShell shell =
     bnd (if length (angmoms shell) = 1 then
            bnd (item (angmoms shell) 0) (\<lambda>kind.
            bnd (item (kinds shell) 0) (\<lambda>kind0.
              Inr (Some (if kind0 = ''p'' \<and> 1 < kind then kind * - 1 else kind))))
          else Inr None) (\<lambda>kind.
       (let kind' =
              (if length (angmoms shell) = 2 then
                 (if 2 * length (exponents shell) = matrix_size (coeffs shell)
                  then Some (- 1) else kind)
               else kind)
        in case kind' of None \<Rightarrow> Inl UnboundLocalError | Some k \<Rightarrow> Inr k))"

subsection \<open>The serializer\<close>

text \<open>
  The file written is the list of the fields printed to it, in order: each is a label
  with a scalar or an array. The fixed-column text of a field is a function of the
  field, and is not modelled.
\<close>

datatype emitted =
    IntScalar string int
  | RealScalar string real
  | IntArray string "int list"
  | RealArray string "real list"

text \<open>The four dumpers print nothing for \<^verbatim>\<open>None\<close>, and the array dumpers nothing for an
  array of size 0.\<close>

definition dump_integer_scalars :: "string \<Rightarrow> int option \<Rightarrow> emitted list \<Rightarrow> emitted list" where
  "dump_integer_scalars name val f =
     (case val of None \<Rightarrow> f | Some v \<Rightarrow> f @ [IntScalar name v])"

definition dump_real_scalars :: "string \<Rightarrow> real option \<Rightarrow> emitted list \<Rightarrow> emitted list" where
  "dump_real_scalars name val f =
     (case val of None \<Rightarrow> f | Some v \<Rightarrow> f @ [RealScalar name v])"

definition dump_integer_arrays :: "string \<Rightarrow> int list option \<Rightarrow> emitted list \<Rightarrow> emitted list" where
  "dump_integer_arrays name val f =
     (case val of None \<Rightarrow> f
      | Some v \<Rightarrow> if length v \<noteq> 0 then f @ [IntArray name v] else f)"

definition dump_real_arrays :: "string \<Rightarrow> real list option \<Rightarrow> emitted list \<Rightarrow> emitted list" where
  "dump_real_arrays name val f =
     (case val of None \<Rightarrow> f
      | Some v \<Rightarrow> if length v \<noteq> 0 then f @ [RealArray name v] else f)"

text \<open>\<^verbatim>\<open>xs[i]\<close> for any integer \<open>i\<close>: a negative index counts from the end.\<close>

definition py_item :: "'a list \<Rightarrow> int \<Rightarrow> error + 'a" where
  "py_item xs i =
     (if 0 \<le> i \<and> i < int (length xs) then Inr (xs ! nat i)
      else if i < 0 \<and> - int (length xs) \<le> i then Inr (xs ! nat (int (length xs) + i))
      else Inl IndexError)"

text \<open>The lists and counters that the first loop of \<^verbatim>\<open>_dump_basisInfo\<close> fills.\<close>

record basis_lists =
  largestDegreeContraction :: nat
  shellTypes :: "int list"
  numberPrimitivesPerShell :: "int list"
  shellAtomMap :: "int list"
  primitiveExp :: "real list"
  contractionCoeff :: "real list"
  spcontractionCoeff :: "real list"
  coordinatesShell :: "real list list"
  totalprim :: nat

text \<open>The loop \<^verbatim>\<open>for j in range(nprim)\<close> over the primitives of shell \<open>i\<close>.\<close>

fun primitives_loop :: "Shell \<Rightarrow> nat \<Rightarrow> nat list \<Rightarrow> basis_lists \<Rightarrow> error + basis_lists" where
  "primitives_loop shell i [] a = Inr a"
| "primitives_loop shell i (j # js) a =
     bnd (item (exponents shell) j) (\<lambda>ex.
     bnd (item (coeffs shell) j) (\<lambda>row.
     bnd (item row 0) (\<lambda>c0.
     bnd (item (shellTypes a) i) (\<lambda>t.
     bnd (if t = - 1 then item row 1 else Inr 0) (\<lambda>c1.
       primitives_loop shell i js
         (a\<lparr>primitiveExp := primitiveExp a @ [ex],
            contractionCoeff := contractionCoeff a @ [c0],
            spcontractionCoeff := spcontractionCoeff a @ [c1],
            totalprim := totalprim a + 1\<rparr>))))))"

text \<open>The loop \<^verbatim>\<open>for i in range(nshell)\<close>; \<open>sh\<close> are \<^verbatim>\<open>basis.shells\<close>.\<close>

fun shells_loop :: "Shell list \<Rightarrow> real list list \<Rightarrow> nat list \<Rightarrow> basis_lists
    \<Rightarrow> error + basis_lists" where
  "shells_loop sh coords [] a = Inr a"
| "shells_loop sh coords (i # is) a =
     bnd (item sh i) (\<lambda>shell.
       (let nprim = length (exponents shell);
            a1 = (if largestDegreeContraction a < nprim
                  then a\<lparr>largestDegreeContraction := nprim\<rparr> else a);
            center = icenter shell;
            a2 = a1\<lparr>shellAtomMap := shellAtomMap a1 @ [center + 1],
                    numberPrimitivesPerShell := numberPrimitivesPerShell a1 @ [int nprim]\<rparr>
        in bnd (py_item coords center) (\<lambda>xyz.
           bnd (get_TypeShell shell) (\<lambda>t.
           bnd (primitives_loop shell i [0..<nprim]
                  (a2\<lparr>coordinatesShell := coordinatesShell a2 @ [xyz],
                      shellTypes := shellTypes a2 @ [t]\<rparr>)) (\<lambda>a3.
             shells_loop sh coords is a3)))))"

text \<open>The second loop, which counts in \<^verbatim>\<open>pureDshells\<close> the shells of type code 2 and in
  \<^verbatim>\<open>pureFshells\<close> those of type code 3.\<close>

fun count_loop :: "int list \<Rightarrow> nat list \<Rightarrow> int \<times> int \<Rightarrow> error + int \<times> int" where
  "count_loop types [] c = Inr c"
| "count_loop types (i # is) (pureDshells, pureFshells) =
     bnd (item types i) (\<lambda>t.
       count_loop types is
         (if t = 2 then pureDshells + 1 else pureDshells,
          if t = 3 then pureFshells + 1 else pureFshells))"

text \<open>\<^verbatim>\<open>np.amax(np.abs(np.array(xs)))\<close>, which raises ValueError for no element.\<close>

definition amax_abs :: "int list \<Rightarrow> error + int" where
  "amax_abs xs = (if xs = [] then Inl ValueError else Inr (Max (set (map abs xs))))"

definition dump_basisInfo :: "MolecularBasis \<Rightarrow> real list list \<Rightarrow> emitted list
    \<Rightarrow> error + emitted list" where
  "dump_basisInfo basis coords f =
     (let numberContractedShells = length (shells basis);
          nshell = length (shells basis)
      in bnd (shells_loop (shells basis) coords [0..<nshell]
                \<lparr>largestDegreeContraction = 0, shellTypes = [],
                 numberPrimitivesPerShell = [], shellAtomMap = [], primitiveExp = [],
                 contractionCoeff = [], spcontractionCoeff = [], coordinatesShell = [],
                 totalprim = 0\<rparr>) (\<lambda>a.
         bnd (count_loop (shellTypes a) [0..<nshell] (0, 0)) (\<lambda>(pureDshells, pureFshells).
         bnd (amax_abs (shellTypes a)) (\<lambda>highestAngularMoment.
           (let f1 = dump_integer_scalars ''Number of basis functions'' (Some (nbasis basis)) f;
                f2 = dump_integer_scalars ''Number of independent functions''
                       (Some (nbasis basis)) f1;
                f3 = dump_integer_scalars ''Number of contracted shells''
                       (Some (int numberContractedShells)) f2;
                f4 = dump_integer_scalars ''Number of primitive shells''
                       (Some (int (totalprim a))) f3;
                f5 = dump_integer_scalars ''Pure/Cartesian d shells'' (Some pureDshells) f4;
                f6 = dump_integer_scalars ''Pure/Cartesian f shells'' (Some pureFshells) f5;
                f7 = dump_integer_scalars ''Highest angular momentum''
                       (Some highestAngularMoment) f6;
                f8 = dump_integer_scalars ''Largest degree of contraction''
                       (Some (int (largestDegreeContraction a))) f7;
                f9 = dump_integer_arrays ''Shell types'' (Some (shellTypes a)) f8;
                f10 = dump_integer_arrays ''Number of primitives per shell''
                        (Some (numberPrimitivesPerShell a)) f9;
                f11 = dump_integer_arrays ''Shell to atom map'' (Some (shellAtomMap a)) f10;
                f12 = dump_real_arrays ''Primitive exponents'' (Some (primitiveExp a)) f11;
                f13 = dump_real_arrays ''Contraction coefficients''
                        (Some (contractionCoeff a)) f12;
                f14 = (if - 1 \<in> set (shellTypes a)
                       then dump_real_arrays ''P(S=P) Contraction coefficients''
                              (Some (spcontractionCoeff a)) f13
                       else f13)
            in Inr (dump_real_arrays ''Coordinates of each shell''
                      (Some (concat (coordinatesShell a))) f14))))))"

text \<open>\<^verbatim>\<open>s.upper()\<close> on ASCII, and \<^verbatim>\<open>sub in s\<close> for strings.\<close>

definition upper_char :: "char \<Rightarrow> char" where
  "upper_char c =
     (case dict_get (zip ''abcdefghijklmnopqrstuvwxyz'' ''ABCDEFGHIJKLMNOPQRSTUVWXYZ'') c of
        None \<Rightarrow> c
      | Some u \<Rightarrow> u)"

definition str_upper :: "string \<Rightarrow> string" where
  "str_upper s = map upper_char s"

fun str_contains :: "string \<Rightarrow> string \<Rightarrow> bool" where
  "str_contains sub [] = (sub = [])"
| "str_contains sub (c # cs) = (take (length sub) (c # cs) = sub \<or> str_contains sub cs)"

text \<open>
  The title of one density in \<^verbatim>\<open>_dump_rdms\<close>. \<^verbatim>\<open>namelevel\<close> is assigned only inside
  \<^verbatim>\<open>if i in lot\<close>; it is \<open>None\<close> as long as nothing has been assigned to it, and the two
  titles that format it then raise UnboundLocalError.
\<close>

definition rdm_title :: "string \<Rightarrow> string option \<Rightarrow> error + string" where
  "rdm_title key namelevel =
     (if key = ''scf'' then Inr ''Total SCF Density''
      else if key = ''scf_spin'' then Inr ''Spin SCF Density''
      else if key = ''post_scf'' then
        (case namelevel of None \<Rightarrow> Inl UnboundLocalError
         | Some l \<Rightarrow> Inr (''Total '' @ l @ '' Density''))
      else if key = ''post_scf_spin'' then
        (case namelevel of None \<Rightarrow> Inl UnboundLocalError
         | Some l \<Rightarrow> Inr (''Spin '' @ l @ '' Density''))
      else Inr ''Total SCF Density'')"

text \<open>The loop \<^verbatim>\<open>for i in level\<close>: the last level found in \<open>lot\<close> stays in \<^verbatim>\<open>namelevel\<close>.\<close>

fun level_loop :: "string list \<Rightarrow> string \<Rightarrow> string option \<Rightarrow> string option" where
  "level_loop [] lot namelevel = namelevel"
| "level_loop (i # level) lot namelevel =
     level_loop level lot (if str_contains i lot then Some i else namelevel)"

text \<open>The loop \<^verbatim>\<open>for key in one_rdms\<close>.\<close>

fun rdms_loop :: "(string \<times> matrix) list \<Rightarrow> string \<Rightarrow> string option \<Rightarrow> emitted list
    \<Rightarrow> error + emitted list" where
  "rdms_loop [] lot namelevel f = Inr f"
| "rdms_loop ((key, m) # one_rdms) lot namelevel f =
     bnd (get_TriangleMat m) (\<lambda>mat.
       (let namelevel' = level_loop [''MP2'', ''MP3'', ''CC'', ''CI''] lot namelevel
        in bnd (rdm_title key namelevel') (\<lambda>title.
             rdms_loop one_rdms lot namelevel' (dump_real_arrays title (Some mat) f))))"

text \<open>\<^verbatim>\<open>_dump_rdms\<close>; \<open>lot_tmp\<close> is \<open>None\<close> for a record with no level of theory, and the
  function goes on with the string \<^verbatim>\<open>"None"\<close>.\<close>

definition dump_rdms :: "(string \<times> matrix) list \<Rightarrow> string option \<Rightarrow> emitted list
    \<Rightarrow> error + emitted list" where
  "dump_rdms one_rdms lot_tmp f =
     (let lot_tmp' = (case lot_tmp of None \<Rightarrow> ''None'' | Some l \<Rightarrow> l);
          lot = str_upper lot_tmp'
      in rdms_loop one_rdms lot None f)"

subsection \<open>Array operations used by the loaders\<close>

text \<open>
  Python is dynamically typed and the model is not. A field is used below through an
  accessor that says what Python does with each kind of value: a scalar of the file is
  a Python number, which has no \<^verbatim>\<open>reshape\<close> (AttributeError) and cannot be subscripted
  or measured (TypeError). Integers are read as reals where an array of numbers is
  expected.
\<close>

definition numbers_of :: "fvalue \<Rightarrow> real list option" where
  "numbers_of a =
     (case a of IntArr xs \<Rightarrow> Some (map real_of_int xs) | RealArr xs \<Rightarrow> Some xs | _ \<Rightarrow> None)"

text \<open>The rows of \<open>n\<close> rows of \<open>k\<close> elements, cut from a flat array in row-major order.\<close>

fun rows_of :: "nat \<Rightarrow> nat \<Rightarrow> 'a list \<Rightarrow> 'a list list" where
  "rows_of 0 k xs = []"
| "rows_of (Suc n) k xs = take k xs # rows_of n k (drop k xs)"

text \<open>\<^verbatim>\<open>a.reshape(-1, k)\<close>: rows of \<open>k\<close> elements; the size must be a multiple of \<open>k\<close>, and
  \<open>k\<close> must not be 0.\<close>

definition reshape_auto :: "nat \<Rightarrow> 'a list \<Rightarrow> error + 'a list list" where
  "reshape_auto k xs =
     (if k \<noteq> 0 \<and> length xs mod k = 0 then Inr (rows_of (length xs div k) k xs)
      else Inl ValueError)"

definition reshape_m1 :: "nat \<Rightarrow> fvalue \<Rightarrow> error + matrix" where
  "reshape_m1 k a =
     (case numbers_of a of None \<Rightarrow> Inl AttributeError | Some xs \<Rightarrow> reshape_auto k xs)"

text \<open>\<^verbatim>\<open>_triangle_to_dense\<close> applied to a field: \<^verbatim>\<open>len\<close> of a number raises TypeError.\<close>

definition triangle_to_dense_field :: "fvalue \<Rightarrow> error + matrix" where
  "triangle_to_dense_field a =
     (case a of
        IntArr xs \<Rightarrow> triangle_to_dense (map real_of_int xs)
      | RealArr xs \<Rightarrow> triangle_to_dense xs
      | IntV i \<Rightarrow> Inl TypeError
      | RealV x \<Rightarrow> Inl TypeError
      | StrV t \<Rightarrow> Inl Unmodelled)"

text \<open>A Python slice \<^verbatim>\<open>xs[a:b]\<close> with integer bounds: a negative bound counts from the end,
  and both are cut to the length.\<close>

definition slice_bound :: "nat \<Rightarrow> int \<Rightarrow> nat" where
  "slice_bound n i = (if i < 0 then nat (int n + i) else min n (nat i))"

definition py_slice :: "'a list \<Rightarrow> int \<Rightarrow> int \<Rightarrow> 'a list" where
  "py_slice xs a b =
     take (slice_bound (length xs) b - slice_bound (length xs) a)
       (drop (slice_bound (length xs) a) xs)"

text \<open>\<^verbatim>\<open>xs[a:b] = v\<close> for a scalar \<open>v\<close>.\<close>

definition set_slice :: "'a list \<Rightarrow> int \<Rightarrow> int \<Rightarrow> 'a \<Rightarrow> 'a list" where
  "set_slice xs a b v =
     map (\<lambda>i. if slice_bound (length xs) a \<le> i \<and> i < slice_bound (length xs) b
                then v else xs ! i) [0..<length xs]"

definition slice_field :: "fvalue \<Rightarrow> int \<Rightarrow> int \<Rightarrow> error + real list" where
  "slice_field a i j =
     (case a of
        IntArr xs \<Rightarrow> Inr (py_slice (map real_of_int xs) i j)
      | RealArr xs \<Rightarrow> Inr (py_slice xs i j)
      | IntV k \<Rightarrow> Inl TypeError
      | RealV x \<Rightarrow> Inl TypeError
      | StrV t \<Rightarrow> Inl Unmodelled)"

text \<open>\<^verbatim>\<open>a[i]\<close> where an integer is needed; an array of reals is not followed.\<close>

definition int_item :: "fvalue \<Rightarrow> nat \<Rightarrow> error + int" where
  "int_item a i =
     (case a of
        IntArr xs \<Rightarrow> item xs i
      | RealArr xs \<Rightarrow> Inl Unmodelled
      | IntV k \<Rightarrow> Inl TypeError
      | RealV x \<Rightarrow> Inl TypeError
      | StrV t \<Rightarrow> Inl Unmodelled)"

text \<open>A scalar where an integer is needed (a shape, a slice bound): a float raises
  TypeError.\<close>

definition as_index :: "fvalue \<Rightarrow> error + int" where
  "as_index a =
     (case a of IntV k \<Rightarrow> Inr k | RealV x \<Rightarrow> Inl TypeError | _ \<Rightarrow> Inl Unmodelled)"

text \<open>A number in a comparison.\<close>

definition as_number :: "fvalue \<Rightarrow> error + real" where
  "as_number a =
     (case a of IntV k \<Rightarrow> Inr (real_of_int k) | RealV x \<Rightarrow> Inr x | _ \<Rightarrow> Inl Unmodelled)"

text \<open>\<^verbatim>\<open>a.shape[0]\<close>\<close>

definition shape0 :: "fvalue \<Rightarrow> error + nat" where
  "shape0 a = (case numbers_of a of None \<Rightarrow> Inl AttributeError | Some xs \<Rightarrow> Inr (length xs))"

text \<open>\<^verbatim>\<open>a.reshape(n, m).T\<close>: the attribute is looked up first, then the two numbers of the
  shape must be integers (a negative one is not followed), and their product must be
  the size of the array.\<close>

definition transpose_rows :: "nat \<Rightarrow> 'a list list \<Rightarrow> 'a list list" where
  "transpose_rows m M = map (\<lambda>j. map (\<lambda>row. row ! j) M) [0..<m]"

definition reshape_T :: "fvalue \<Rightarrow> fvalue \<Rightarrow> fvalue \<Rightarrow> error + matrix" where
  "reshape_T a n m =
     (case numbers_of a of
        None \<Rightarrow> Inl AttributeError
      | Some xs \<Rightarrow>
          bnd (as_index n) (\<lambda>n'.
          bnd (as_index m) (\<lambda>m'.
            if n' < 0 \<or> m' < 0 then Inl Unmodelled
            else if nat n' * nat m' = length xs
            then Inr (transpose_rows (nat m') (rows_of (nat n') (nat m') xs))
            else Inl ValueError)))"

text \<open>\<^verbatim>\<open>np.stack([a, b], axis=1)\<close> and \<^verbatim>\<open>a[:, np.newaxis]\<close> for one-dimensional arrays.\<close>

definition stack_columns :: "'a list \<Rightarrow> 'a list \<Rightarrow> error + 'a list list" where
  "stack_columns a b =
     (if length a = length b then Inr (map (\<lambda>(x, y). [x, y]) (zip a b)) else Inl ValueError)"

definition as_column :: "'a list \<Rightarrow> 'a list list" where
  "as_column a = map (\<lambda>x. [x]) a"

subsection \<open>The single-frame loader: \<^verbatim>\<open>load_one\<close>\<close>

text \<open>\<^verbatim>\<open>s.lower()\<close> on ASCII; a value that is no string has no such method.\<close>

definition lower_char :: "char \<Rightarrow> char" where
  "lower_char c =
     (case dict_get (zip ''ABCDEFGHIJKLMNOPQRSTUVWXYZ'' ''abcdefghijklmnopqrstuvwxyz'') c of
        None \<Rightarrow> c
      | Some l \<Rightarrow> l)"

definition lower_field :: "fvalue \<Rightarrow> error + string" where
  "lower_field a = (case a of StrV t \<Rightarrow> Inr (map lower_char t) | _ \<Rightarrow> Inl AttributeError)"

text \<open>\<^verbatim>\<open>a * amu\<close>, \<^verbatim>\<open>a == -2\<close> and \<^verbatim>\<open>a - 1\<close> on a field.\<close>

definition times_field :: "fvalue \<Rightarrow> real \<Rightarrow> error + fvalue" where
  "times_field a c =
     (case a of
        IntV k \<Rightarrow> Inr (RealV (real_of_int k * c))
      | RealV x \<Rightarrow> Inr (RealV (x * c))
      | IntArr xs \<Rightarrow> Inr (RealArr (map (\<lambda>k. real_of_int k * c) xs))
      | RealArr xs \<Rightarrow> Inr (RealArr (map (\<lambda>x. x * c) xs))
      | StrV t \<Rightarrow> Inl TypeError)"

datatype frozen = FrozenFlag bool | FrozenFlags "bool list"

definition equals_field :: "fvalue \<Rightarrow> int \<Rightarrow> frozen" where
  "equals_field a c =
     (case a of
        IntV k \<Rightarrow> FrozenFlag (k = c)
      | RealV x \<Rightarrow> FrozenFlag (x = real_of_int c)
      | IntArr xs \<Rightarrow> FrozenFlags (map (\<lambda>k. k = c) xs)
      | RealArr xs \<Rightarrow> FrozenFlags (map (\<lambda>x. x = real_of_int c) xs)
      | StrV t \<Rightarrow> FrozenFlag False)"

definition minus_field :: "fvalue \<Rightarrow> int \<Rightarrow> error + fvalue" where
  "minus_field a c =
     (case a of
        IntV k \<Rightarrow> Inr (IntV (k - c))
      | RealV x \<Rightarrow> Inr (RealV (x - real_of_int c))
      | IntArr xs \<Rightarrow> Inr (IntArr (map (\<lambda>k. k - c) xs))
      | RealArr xs \<Rightarrow> Inr (RealArr (map (\<lambda>x. x - real_of_int c) xs))
      | StrV t \<Rightarrow> Inl TypeError)"

text \<open>\<^verbatim>\<open>a[[i0, i1, ...]]\<close> on a field.\<close>

definition take_indices_field :: "fvalue \<Rightarrow> nat list \<Rightarrow> error + fvalue" where
  "take_indices_field a idx =
     (case a of
        IntArr xs \<Rightarrow> bnd (take_indices xs idx) (\<lambda>ys. Inr (IntArr ys))
      | RealArr xs \<Rightarrow> bnd (take_indices xs idx) (\<lambda>ys. Inr (RealArr ys))
      | IntV k \<Rightarrow> Inl TypeError
      | RealV x \<Rightarrow> Inl TypeError
      | StrV t \<Rightarrow> Inl Unmodelled)"

text \<open>An optional field \<^verbatim>\<open>x = fchk.get(label)\<close> that is converted when it is there.\<close>

definition optional :: "fields \<Rightarrow> string \<Rightarrow> (fvalue \<Rightarrow> error + 'a) \<Rightarrow> error + 'a option" where
  "optional fchk label f =
     (case dict_get fchk label of
        None \<Rightarrow> Inr None
      | Some v \<Rightarrow> bnd (f v) (\<lambda>x. Inr (Some x)))"

text \<open>The labels \<^verbatim>\<open>load_one\<close> asks the reader for.\<close>

definition load_one_labels :: "string list" where
  "load_one_labels =
     [''Number of electrons'', ''Number of basis functions'',
      ''Number of independant functions'', ''Number of independent functions'',
      ''Number of alpha electrons'', ''Number of beta electrons'',
      ''Atomic numbers'', ''Current cartesian coordinates'', ''Real atomic weights'',
      ''Shell types'', ''Shell to atom map'', ''Shell to atom map'',
      ''Number of primitives per shell'', ''Primitive exponents'',
      ''Contraction coefficients'', ''P(S=P) Contraction coefficients'',
      ''Alpha Orbital Energies'', ''Alpha MO coefficients'',
      ''Beta Orbital Energies'', ''Beta MO coefficients'',
      ''Total Energy'', ''Nuclear charges'',
      ''Total SCF Density'', ''Spin SCF Density'',
      ''Total MP2 Density'', ''Spin MP2 Density'',
      ''Total MP3 Density'', ''Spin MP3 Density'',
      ''Total CC Density'', ''Spin CC Density'',
      ''Total CI Density'', ''Spin CI Density'',
      ''Mulliken Charges'', ''ESP Charges'', ''NPA Charges'',
      ''Polarizability'', ''Dipole Moment'', ''Quadrupole Moment'',
      ''Cartesian Gradient'', ''Cartesian Force Constants'', ''MicOpt'']"

text \<open>Part A of \<^verbatim>\<open>load_one\<close>: a bunch of simple things.\<close>

record simple_things =
  title :: fvalue
  energy :: fvalue
  lot :: string
  obasis_name :: string
  atcoords :: matrix
  atnums :: fvalue
  atcorenums :: fvalue
  atmasses :: "fvalue option"
  atgradient :: "matrix option"
  athessian :: "matrix option"
  atfrozen :: "frozen option"
  run_type :: "string option"

definition run_types :: "(string \<times> string) list" where
  "run_types = [(''SP'', ''energy''), (''FOpt'', ''opt''), (''Scan'', ''scan''),
                (''Freq'', ''freq'')]"

definition load_one_A :: "pylib \<Rightarrow> fields \<Rightarrow> error + simple_things" where
  "load_one_A L fchk =
     bnd (dict_item fchk ''title'') (\<lambda>v_title.
     bnd (dict_item fchk ''Total Energy'') (\<lambda>v_energy.
     bnd (dict_item fchk ''lot'') (\<lambda>v_lot.
     bnd (lower_field v_lot) (\<lambda>v_lot'.
     bnd (dict_item fchk ''obasis_name'') (\<lambda>v_obasis_name.
     bnd (lower_field v_obasis_name) (\<lambda>v_obasis_name'.
     bnd (dict_item fchk ''Current cartesian coordinates'') (\<lambda>v_coordinates.
     bnd (reshape_m1 3 v_coordinates) (\<lambda>v_atcoords.
     bnd (dict_item fchk ''Atomic numbers'') (\<lambda>v_atnums.
     bnd (dict_item fchk ''Nuclear charges'') (\<lambda>v_atcorenums.
     bnd (optional fchk ''Real atomic weights'' (\<lambda>v. times_field v (amu L))) (\<lambda>v_atmasses.
     bnd (optional fchk ''Cartesian Gradient'' (reshape_m1 3)) (\<lambda>v_atgradient.
     bnd (optional fchk ''Cartesian Force Constants'' triangle_to_dense_field) (\<lambda>v_athessian.
     bnd (optional fchk ''MicOpt'' (\<lambda>v. Inr (equals_field v (- 2)))) (\<lambda>v_atfrozen.
     bnd (dict_item fchk ''command'') (\<lambda>v_command.
     bnd (case v_command of StrV c \<Rightarrow> Inr (dict_get run_types c) | _ \<Rightarrow> Inl Unmodelled)
       (\<lambda>v_run_type.
       Inr \<lparr>title = v_title, energy = v_energy, lot = v_lot', obasis_name = v_obasis_name',
            atcoords = v_atcoords, atnums = v_atnums, atcorenums = v_atcorenums,
            atmasses = v_atmasses, atgradient = v_atgradient, athessian = v_athessian,
            atfrozen = v_atfrozen, run_type = v_run_type\<rparr>))))))))))))))))"

text \<open>
  Part B: the orbital basis set. The loop \<^verbatim>\<open>for i, n in enumerate(nprims)\<close> runs over the
  integers \<open>ns\<close> that are left, with \<open>i\<close> the index and \<open>counter\<close> the position in the pools
  of exponents and coefficients.
\<close>

fun shell_loop :: "fvalue \<Rightarrow> fvalue \<Rightarrow> fvalue \<Rightarrow> fvalue \<Rightarrow> fvalue option \<Rightarrow> nat \<Rightarrow> int list
    \<Rightarrow> int \<Rightarrow> Shell list \<Rightarrow> error + Shell list" where
  "shell_loop shell_types shell_map exps ccoeffs_level1 ccoeffs_level2 i [] counter sh = Inr sh"
| "shell_loop shell_types shell_map exps ccoeffs_level1 ccoeffs_level2 i (n # ns) counter sh =
     bnd (int_item shell_types i) (\<lambda>t.
     bnd (int_item shell_map i) (\<lambda>center.
     bnd (slice_field exps counter (counter + n)) (\<lambda>ex.
     bnd (if t = - 1 then
            bnd (slice_field ccoeffs_level1 counter (counter + n)) (\<lambda>c1.
            bnd (case ccoeffs_level2 of
                   None \<Rightarrow> Inl TypeError
                 | Some l2 \<Rightarrow> slice_field l2 counter (counter + n)) (\<lambda>c2.
            bnd (stack_columns c1 c2) (\<lambda>co.
              Inr \<lparr>icenter = center, angmoms = [0, 1], kinds = [''c'', ''c''],
                   exponents = ex, coeffs = co\<rparr>)))
          else
            bnd (slice_field ccoeffs_level1 counter (counter + n)) (\<lambda>c1.
              Inr \<lparr>icenter = center, angmoms = [abs t],
                   kinds = [if t < 0 then ''p'' else ''c''],
                   exponents = ex, coeffs = as_column c1\<rparr>)) (\<lambda>shell.
       shell_loop shell_types shell_map exps ccoeffs_level1 ccoeffs_level2 (i + 1) ns
         (counter + n) (sh @ [shell])))))"

text \<open>\<^verbatim>\<open>enumerate(nprims)\<close>: a number cannot be iterated; an array of reals is not followed
  unless it is empty.\<close>

definition iterate_ints :: "fvalue \<Rightarrow> error + int list" where
  "iterate_ints a =
     (case a of
        IntArr ns \<Rightarrow> Inr ns
      | RealArr xs \<Rightarrow> if xs = [] then Inr [] else Inl Unmodelled
      | IntV k \<Rightarrow> Inl TypeError
      | RealV x \<Rightarrow> Inl TypeError
      | StrV t \<Rightarrow> Inl Unmodelled)"

definition load_one_B :: "fields \<Rightarrow> error + Shell list \<times> fvalue" where
  "load_one_B fchk =
     bnd (dict_item fchk ''Shell types'') (\<lambda>shell_types.
     bnd (dict_item fchk ''Shell to atom map'') (\<lambda>shell_map0.
     bnd (minus_field shell_map0 1) (\<lambda>shell_map.
     bnd (dict_item fchk ''Number of primitives per shell'') (\<lambda>nprims.
     bnd (dict_item fchk ''Primitive exponents'') (\<lambda>exps.
     bnd (dict_item fchk ''Contraction coefficients'') (\<lambda>ccoeffs_level1.
       (let ccoeffs_level2 = dict_get fchk ''P(S=P) Contraction coefficients'' in
        bnd (iterate_ints nprims) (\<lambda>ns.
        bnd (shell_loop shell_types shell_map exps ccoeffs_level1 ccoeffs_level2 0 ns 0 [])
          (\<lambda>sh.
        bnd (dict_item fchk ''Number of basis functions'') (\<lambda>v_nbasis.
          Inr (sh, v_nbasis)))))))))))"

text \<open>Part C: density matrices. \<^verbatim>\<open>_load_dm\<close> stores a density under \<open>key\<close> when the file has
  the label.\<close>

type_synonym rdms = "(string \<times> matrix) list"

definition load_dm :: "string \<Rightarrow> fields \<Rightarrow> rdms \<Rightarrow> string \<Rightarrow> error + rdms" where
  "load_dm label fchk result key =
     (case dict_get fchk label of
        None \<Rightarrow> Inr result
      | Some v \<Rightarrow> bnd (triangle_to_dense_field v) (\<lambda>m. Inr (dict_set result key m)))"

fun lot_loop :: "string list \<Rightarrow> fields \<Rightarrow> rdms \<Rightarrow> error + rdms" where
  "lot_loop [] fchk one_rdms = Inr one_rdms"
| "lot_loop (l # lots) fchk one_rdms =
     bnd (load_dm (''Total '' @ l @ '' Density'') fchk one_rdms ''post_scf'') (\<lambda>r1.
     bnd (load_dm (''Spin '' @ l @ '' Density'') fchk r1 ''post_scf_spin'') (\<lambda>r2.
       lot_loop lots fchk r2))"

definition load_one_C :: "fields \<Rightarrow> error + rdms" where
  "load_one_C fchk =
     bnd (load_dm ''Total SCF Density'' fchk [] ''scf'') (\<lambda>r1.
     bnd (load_dm ''Spin SCF Density'' fchk r1 ''scf_spin'') (\<lambda>r2.
       lot_loop [''MP2'', ''MP3'', ''CC'', ''CI''] fchk r2))"

text \<open>
  Part D: the wavefunction.

  Modelled from the spec: the class \<^verbatim>\<open>MolecularOrbitals\<close> (module \<^verbatim>\<open>orbitals\<close>, not among the
  sources) holds the kind of the orbitals, the numbers of alpha and beta orbitals, the
  occupations, the coefficients and the energies.
\<close>

record MolecularOrbitals =
  mo_kind :: string
  norba :: nat
  norbb :: nat
  occs :: "real list"
  mo_coeffs :: matrix
  mo_energies :: "real list"

text \<open>\<^verbatim>\<open>np.zeros(n)\<close> for an integer \<open>n\<close>.\<close>

definition np_zeros :: "int \<Rightarrow> error + real list" where
  "np_zeros n = (if n < 0 then Inl ValueError else Inr (replicate (nat n) 0))"

text \<open>The two tests of the electron counts. The second operand of \<^verbatim>\<open>or\<close> is evaluated only
  when the first is false.\<close>

definition check_electrons :: "fvalue \<Rightarrow> fvalue \<Rightarrow> error + unit" where
  "check_electrons nalpha nbeta =
     bnd (as_number nalpha) (\<lambda>na.
       if na < 0 then Inl (LitError ''The number of electrons is not positive.'')
       else
         bnd (as_number nbeta) (\<lambda>nb.
           if nb < 0 \<or> na + nb \<le> 0
           then Inl (LitError ''The number of electrons is not positive.'')
           else if na < nb then Inl ValueError
           else Inr ()))"

text \<open>\<^verbatim>\<open>result['one_rdms'].pop('scf')\<close>: the result has the key \<^verbatim>\<open>one_rdms\<close> only when part C
  found a density.\<close>

definition pop_scf :: "rdms \<Rightarrow> error + rdms" where
  "pop_scf one_rdms =
     (if one_rdms = [] then Inl (KeyError ''one_rdms'') else dict_pop one_rdms ''scf'')"

text \<open>\<^verbatim>\<open>fchk.get("Number of independant functions",
  fchk.get("Number of independent functions", nbasis))\<close>\<close>

definition nbasis_indep_of :: "fields \<Rightarrow> fvalue \<Rightarrow> fvalue" where
  "nbasis_indep_of fchk v_nbasis =
     (case dict_get fchk ''Number of independant functions'' of
        Some v \<Rightarrow> v
      | None \<Rightarrow>
          (case dict_get fchk ''Number of independent functions'' of
             Some v \<Rightarrow> v
           | None \<Rightarrow> v_nbasis))"

definition load_one_D :: "fields \<Rightarrow> fvalue \<Rightarrow> rdms \<Rightarrow> error + MolecularOrbitals \<times> rdms" where
  "load_one_D fchk v_nbasis one_rdms =
     (let nbasis_indep = nbasis_indep_of fchk v_nbasis
      in
      bnd (dict_item fchk ''Number of alpha electrons'') (\<lambda>nalpha.
      bnd (dict_item fchk ''Number of beta electrons'') (\<lambda>nbeta.
      bnd (check_electrons nalpha nbeta) (\<lambda>checked.
      bnd (dict_item fchk ''Alpha Orbital Energies'') (\<lambda>alpha_energies.
      bnd (shape0 alpha_energies) (\<lambda>v_norba.
      bnd (dict_item fchk ''Alpha MO coefficients'') (\<lambda>alpha_coeffs.
      bnd (reshape_T alpha_coeffs nbasis_indep v_nbasis) (\<lambda>coeffs_a.
        (let energies_a = the (numbers_of alpha_energies) in
         case dict_get fchk ''Beta Orbital Energies'' of
           Some beta_energies \<Rightarrow>
             bnd (shape0 beta_energies) (\<lambda>v_norbb.
             bnd (dict_item fchk ''Beta MO coefficients'') (\<lambda>beta_coeffs.
             bnd (reshape_T beta_coeffs nbasis_indep v_nbasis) (\<lambda>coeffs_b.
             bnd (as_index nbasis_indep) (\<lambda>n_indep.
             bnd (np_zeros (2 * n_indep)) (\<lambda>occs0.
             bnd (as_index nalpha) (\<lambda>na.
             bnd (as_index nbeta) (\<lambda>nb.
               Inr (\<lparr>mo_kind = ''unrestricted'', norba = v_norba, norbb = v_norbb,
                     occs = set_slice (set_slice occs0 0 na 1) n_indep (n_indep + nb) 1,
                     mo_coeffs = map (\<lambda>(ra, rb). ra @ rb) (zip coeffs_a coeffs_b),
                     mo_energies = energies_a @ the (numbers_of beta_energies)\<rparr>,
                    one_rdms))))))))
         | None \<Rightarrow>
             bnd (as_index nbasis_indep) (\<lambda>n_indep.
             bnd (np_zeros n_indep) (\<lambda>occs0.
             bnd (as_index nalpha) (\<lambda>na.
             bnd (as_index nbeta) (\<lambda>nb.
             bnd (if na \<noteq> nb then pop_scf one_rdms else Inr one_rdms) (\<lambda>one_rdms'.
               Inr (\<lparr>mo_kind = ''restricted'', norba = v_norba, norbb = v_norba,
                     occs = set_slice (set_slice occs0 0 na 1) 0 nb 2,
                     mo_coeffs = coeffs_a,
                     mo_energies = energies_a\<rparr>,
                    one_rdms')))))))))))))))"

text \<open>Part E: properties. The moments are kept under the keys \<^verbatim>\<open>(1, 'c')\<close> and \<^verbatim>\<open>(2, 'c')\<close>.\<close>

record properties =
  extra :: "matrix option"
  moments :: "((int \<times> string) \<times> fvalue) list"
  atcharges :: "(string \<times> fvalue) list"

definition load_one_E :: "fields \<Rightarrow> error + properties" where
  "load_one_E fchk =
     bnd (optional fchk ''Polarizability'' triangle_to_dense_field) (\<lambda>polarizability_tensor.
       (let moments1 = (case dict_get fchk ''Dipole Moment'' of
                          None \<Rightarrow> []
                        | Some d \<Rightarrow> dict_set [] (1, ''c'') d)
        in
        bnd (case dict_get fchk ''Quadrupole Moment'' of
               None \<Rightarrow> Inr moments1
             | Some q \<Rightarrow>
                 bnd (take_indices_field q [0, 3, 4, 1, 5, 2]) (\<lambda>q'.
                   Inr (dict_set moments1 (2, ''c'') q'))) (\<lambda>moments2.
          (let c1 = (case dict_get fchk ''Mulliken Charges'' of
                       None \<Rightarrow> []
                     | Some c \<Rightarrow> dict_set [] ''mulliken'' c);
               c2 = (case dict_get fchk ''ESP Charges'' of
                       None \<Rightarrow> c1
                     | Some c \<Rightarrow> dict_set c1 ''esp'' c);
               c3 = (case dict_get fchk ''NPA Charges'' of
                       None \<Rightarrow> c2
                     | Some c \<Rightarrow> dict_set c2 ''npa'' c)
           in Inr \<lparr>extra = polarizability_tensor, moments = moments2, atcharges = c3\<rparr>))))"

text \<open>
  The result of \<^verbatim>\<open>load_one\<close>. A key that the Python dictionary has only under a condition
  is \<open>None\<close> (or the empty dictionary, for \<open>moments\<close> and \<open>atcharges\<close>) when it is missing;
  \<open>one_rdms\<close> is stored when part C found a density, and stays stored, possibly empty, when
  part D removes \<^verbatim>\<open>scf\<close> from it. The basis is given by its shells: the conventions and
  the normalization that \<^verbatim>\<open>MolecularBasis\<close> takes besides are constants.
\<close>

record loaded =
  simple :: simple_things
  obasis :: "Shell list"
  one_rdms :: "rdms option"
  mo :: MolecularOrbitals
  props :: properties

definition load_one_fields :: "pylib \<Rightarrow> fields \<Rightarrow> error + loaded" where
  "load_one_fields L fchk =
     bnd (load_one_A L fchk) (\<lambda>a.
     bnd (load_one_B fchk) (\<lambda>(sh, v_nbasis).
     bnd (load_one_C fchk) (\<lambda>rdms_c.
     bnd (load_one_D fchk v_nbasis rdms_c) (\<lambda>(orbitals, rdms_d).
     bnd (load_one_E fchk) (\<lambda>e.
       Inr \<lparr>simple = a, obasis = sh,
            one_rdms = (if rdms_c = [] then None else Some rdms_d),
            mo = orbitals, props = e\<rparr>)))))"

definition load_one :: "pylib \<Rightarrow> string list \<Rightarrow> error + loaded" where
  "load_one L lit =
     (case load_fchk_low L (Some load_one_labels) lit of
        (Inl e, lit') \<Rightarrow> Inl e
      | (Inr fchk, lit') \<Rightarrow> load_one_fields L fchk)"

subsection \<open>A library for the concrete examples\<close>

text \<open>
  The examples below need some \<open>pylib\<close> to run on. \<open>glob\<close> is \<^verbatim>\<open>fnmatch\<close> for patterns
  made of plain characters, \<^verbatim>\<open>*\<close> and \<^verbatim>\<open>?\<close> (on a POSIX system, where no case is folded);
  \<open>dec_int\<close> is \<^verbatim>\<open>int()\<close> on an optional sign followed by decimal digits; \<open>dec_real\<close> is
  \<^verbatim>\<open>float()\<close> on an optional sign, digits, an optional fraction and an optional
  exponent. They refuse everything else, which is more than Python refuses; the
  examples use them only on words of these shapes and on words such as \<^verbatim>\<open>Total\<close> that
  Python refuses too.
\<close>

fun glob :: "string \<Rightarrow> string \<Rightarrow> bool" where
  "glob [] [] = True"
| "glob (c # cs) [] = False"
| "glob [] (p # ps) = (p = CHR ''*'' \<and> glob [] ps)"
| "glob (c # cs) (p # ps) =
     (if p = CHR ''*'' then glob (c # cs) ps \<or> glob cs (p # ps)
      else (p = CHR ''?'' \<or> p = c) \<and> glob cs ps)"

definition digit_of :: "char \<Rightarrow> nat option" where
  "digit_of c =
     dict_get [(CHR ''0'', 0), (CHR ''1'', 1), (CHR ''2'', 2), (CHR ''3'', 3), (CHR ''4'', 4),
               (CHR ''5'', 5), (CHR ''6'', 6), (CHR ''7'', 7), (CHR ''8'', 8), (CHR ''9'', 9)] c"

fun digits_from :: "nat \<Rightarrow> string \<Rightarrow> nat option" where
  "digits_from a [] = Some a"
| "digits_from a (c # cs) =
     (case digit_of c of None \<Rightarrow> None | Some d \<Rightarrow> digits_from (10 * a + d) cs)"

definition dec_nat :: "string \<Rightarrow> nat option" where
  "dec_nat s = (if s = [] then None else digits_from 0 s)"

definition dec_int :: "string \<Rightarrow> int option" where
  "dec_int s =
     (case s of
        [] \<Rightarrow> None
      | c # cs \<Rightarrow>
          if c = CHR ''-'' then map_option (\<lambda>n. - int n) (dec_nat cs)
          else if c = CHR ''+'' then map_option int (dec_nat cs)
          else map_option int (dec_nat s))"

definition is_exp_mark :: "char \<Rightarrow> bool" where
  "is_exp_mark c = (c = CHR ''E'' \<or> c = CHR ''e'')"

definition dec_fixed :: "string \<Rightarrow> real option" where
  "dec_fixed s =
     (let ip = takeWhile (\<lambda>c. c \<noteq> CHR ''.'') s; rest = dropWhile (\<lambda>c. c \<noteq> CHR ''.'') s
      in case rest of
           [] \<Rightarrow> map_option real (dec_nat ip)
         | dot # fp \<Rightarrow>
             (case (dec_nat ip, dec_nat fp) of
                (Some i, Some f) \<Rightarrow> Some (real i + real f / 10 ^ length fp)
              | _ \<Rightarrow> None))"

definition dec_real :: "string \<Rightarrow> real option" where
  "dec_real s =
     (let neg = (s \<noteq> [] \<and> hd s = CHR ''-'');
          body = (if s \<noteq> [] \<and> (hd s = CHR ''-'' \<or> hd s = CHR ''+'') then tl s else s);
          mant = takeWhile (\<lambda>c. \<not> is_exp_mark c) body;
          rest = dropWhile (\<lambda>c. \<not> is_exp_mark c) body
      in case dec_fixed mant of
           None \<Rightarrow> None
         | Some m \<Rightarrow>
             (case rest of
                [] \<Rightarrow> Some (if neg then - m else m)
              | e # ex \<Rightarrow>
                  (case dec_int ex of
                     None \<Rightarrow> None
                   | Some k \<Rightarrow>
                       Some ((if neg then - m else m) *
                             (if 0 \<le> k then 10 ^ nat k else 1 / 10 ^ nat (- k))))))"

definition lib0 :: pylib where
  "lib0 = \<lparr>fnmatch = glob, to_int = dec_int, to_float = dec_real,
            amu = 1822.888486209\<rparr>"

subsection \<open>The reader the specification describes\<close>

text \<open>
  The specification says that an array field whose label matches no pattern is consumed
  by the same length-driven loop as a matched one. \<open>spec_load_fchk_field\<close> follows these
  words: it reads every field with \<open>read_field\<close> and tests the label afterwards. It is
  here to be compared with \<open>load_fchk_field\<close>, which tests the label first.
\<close>

function spec_load_fchk_field :: "pylib \<Rightarrow> string list option \<Rightarrow> string list
    \<Rightarrow> (error + string \<times> fvalue) \<times> string list" where
  "spec_load_fchk_field L label_patterns [] = (Inl StopIteration, [])"
| "spec_load_fchk_field L label_patterns (line # lit) =
     (let label = str_strip (take 43 line); words = str_split (drop 43 line) in
      case words of
        [] \<Rightarrow> spec_load_fchk_field L label_patterns lit
      | w0 # ws \<Rightarrow>
          (case type_code w0 of
             None \<Rightarrow> spec_load_fchk_field L label_patterns lit
           | Some dt \<Rightarrow>
               (case read_field L dt label words lit of
                  None \<Rightarrow> spec_load_fchk_field L label_patterns lit
                | Some (r, lit') \<Rightarrow>
                    if label_matches L label_patterns label then (r, lit')
                    else (case r of
                            Inl e \<Rightarrow> (Inl e, lit')
                          | Inr x \<Rightarrow> spec_load_fchk_field L label_patterns lit'))))"
  by pat_completeness auto
termination
  by (relation "measure (\<lambda>(L, label_patterns, lit). length lit)")
     (auto dest!: read_field_length)

section \<open>Properties\<close>

subsection \<open>Lines the field reader passes over\<close>

text \<open>A header line is sane when a word follows its column 43 and the first such word is
  the type code \<^verbatim>\<open>I\<close> or \<^verbatim>\<open>R\<close>; its label is the text of its first 43 columns.\<close>

definition sane_header :: "string \<Rightarrow> bool" where
  "sane_header line =
     (case str_split (drop 43 line) of [] \<Rightarrow> False | w0 # ws \<Rightarrow> type_code w0 \<noteq> None)"

definition header_label :: "string \<Rightarrow> string" where
  "header_label line = str_strip (take 43 line)"

text \<open>A line of data: none of its words ends with the letter \<^verbatim>\<open>I\<close> or \<^verbatim>\<open>R\<close>. Every line
  of numbers is one, whatever notation the numbers are in.\<close>

definition data_line :: "string \<Rightarrow> bool" where
  "data_line line =
     list_all (\<lambda>w. last w \<noteq> CHR ''I'' \<and> last w \<noteq> CHR ''R'') (str_split line)"

lemma split_from_longer:
  "x \<in> set (split_from v s) \<Longrightarrow> \<exists>y \<in> set (split_from (u @ v) s). \<exists>p. y = p @ x"
proof (induction s arbitrary: u v)
  case Nil
  then show ?case by (auto split: if_splits)
next
  case (Cons c cs)
  show ?case
  proof (cases "isspace c")
    case True
    with Cons.prems consider "v \<noteq> []" "x = v" | "x \<in> set (split_from [] cs)"
      by (auto split: if_splits)
    then show ?thesis
    proof cases
      case 1
      with True show ?thesis by simp
    next
      case 2
      then have "x \<in> set (split_from (u @ v) (c # cs))" using True by simp
      then show ?thesis by blast
    qed
  next
    case False
    with Cons.prems have "x \<in> set (split_from (v @ [c]) cs)" by simp
    from Cons.IH [OF this, of u] False show ?thesis by simp
  qed
qed

lemma split_from_drop:
  "x \<in> set (split_from [] (drop n s)) \<Longrightarrow> \<exists>y \<in> set (split_from w s). \<exists>p. y = p @ x"
proof (induction s arbitrary: n w)
  case Nil
  then show ?case by simp
next
  case (Cons c cs)
  show ?case
  proof (cases n)
    case 0
    with Cons.prems have "x \<in> set (split_from [] (c # cs))" by simp
    from split_from_longer [OF this, of w] show ?thesis by simp
  next
    case (Suc m)
    with Cons.prems have x: "x \<in> set (split_from [] (drop m cs))" by simp
    show ?thesis
      using Cons.IH [OF x, of "[]"] Cons.IH [OF x, of "w @ [c]"] by auto
  qed
qed

lemma data_line_not_sane: "data_line line \<Longrightarrow> \<not> sane_header line"
proof
  assume d: "data_line line" and s: "sane_header line"
  from s obtain w0 ws where w: "str_split (drop 43 line) = w0 # ws"
    and t: "w0 = ''I'' \<or> w0 = ''R''"
    by (auto simp: sane_header_def type_code_def split: list.splits if_splits)
  from w have "w0 \<in> set (split_from [] (drop 43 line))" by (simp add: str_split_def)
  from split_from_drop [OF this, of "[]"] obtain y p
    where y: "y \<in> set (str_split line)" and yp: "y = p @ w0"
    by (auto simp: str_split_def)
  from yp t have "last y = CHR ''I'' \<or> last y = CHR ''R''" by auto
  with d y show False by (auto simp: data_line_def list_all_iff)
qed

lemma load_fchk_field_skip:
  "\<not> sane_header line \<or> \<not> label_matches L label_patterns (header_label line) \<Longrightarrow>
   load_fchk_field L label_patterns (line # lit) = load_fchk_field L label_patterns lit"
  by (auto simp: sane_header_def header_label_def Let_def split: list.splits option.splits)

lemma load_fchk_field_skip_lines:
  "\<forall>l \<in> set ls. \<not> sane_header l \<Longrightarrow>
   load_fchk_field L label_patterns (ls @ lit) = load_fchk_field L label_patterns lit"
  by (induction ls) (simp_all add: load_fchk_field_skip del: load_fchk_field.simps)

lemma fields_loop_drains:
  "fields_loop L label_patterns lit result = (Inr d, rest) \<Longrightarrow> rest = []"
proof (induction L label_patterns lit result rule: fields_loop.induct)
  case (1 L label_patterns lit result)
  obtain r lit' where f: "load_fchk_field L label_patterns lit = (r, lit')"
    by (cases "load_fchk_field L label_patterns lit")
  show ?case
  proof (cases r)
    case (Inl e)
    with 1(2) f have "e = StopIteration" and "rest = lit'"
      by (auto simp: fields_loop.simps [of L label_patterns lit] split: if_splits)
    with f Inl show ?thesis by (auto dest: load_fchk_field_stop)
  next
    case (Inr x)
    obtain label v where x: "x = (label, v)" by (cases x)
    from 1(2) f Inr x
    have "fields_loop L label_patterns lit' (dict_set result label v) = (Inr d, rest)"
      by (simp add: fields_loop.simps [of L label_patterns lit])
    from 1(1) [OF f [symmetric] Inr x [symmetric] this] show ?thesis .
  qed
qed

lemma load_fchk_low_drains:
  "load_fchk_low L label_patterns lines = (Inr d, rest) \<Longrightarrow> rest = []"
  by (auto simp: load_fchk_low_def Let_def split: list.splits if_splits
      dest: fields_loop_drains)

subsection \<open>C1: array fields whose label matches no pattern\<close>

text \<open>
  C1, as the code has it. The reader tests the label of a header line before it looks at
  the number of words or at the declared length, so an array field that matches no
  pattern is not consumed by the length-driven loop: its header line is passed over, and
  so is every following line that is not a sane header line. Whenever every continuation
  line of the unmatched array is a line of data (no word of it ends with the letter I or
  R, as in every line of numbers), the field reader and the loop of the store do on the
  stream exactly what they do on the stream without the field, whatever length the
  header declares and however many continuation lines follow. And the store returns
  normally only when the source has been read to its end.
\<close>

theorem unmatched_array_passed_over:
  assumes "sane_header hdr"
    and "\<not> label_matches L label_patterns (header_label hdr)"
    and "\<forall>l \<in> set cont. data_line l"
  shows "load_fchk_field L label_patterns (hdr # cont @ lit)
           = load_fchk_field L label_patterns lit \<and>
         fields_loop L label_patterns (hdr # cont @ lit) result
           = fields_loop L label_patterns lit result \<and>
         (\<forall>lines d rest. load_fchk_low L label_patterns lines = (Inr d, rest) \<longrightarrow> rest = [])"
proof -
  from assms(3) have "\<forall>l \<in> set cont. \<not> sane_header l"
    by (blast dest: data_line_not_sane)
  then have "load_fchk_field L label_patterns (cont @ lit) = load_fchk_field L label_patterns lit"
    by (rule load_fchk_field_skip_lines)
  with assms(2) have field: "load_fchk_field L label_patterns (hdr # cont @ lit)
      = load_fchk_field L label_patterns lit"
    by (simp add: load_fchk_field_skip del: load_fchk_field.simps)
  have "fields_loop L label_patterns (hdr # cont @ lit) result
      = fields_loop L label_patterns lit result"
    by (subst fields_loop.simps, subst (2) fields_loop.simps) (simp only: field)
  with field show ?thesis by (blast dest: load_fchk_low_drains)
qed

text \<open>An example: a field of declared length 7 on two continuation lines, not asked
  for, followed by a field that is.\<close>

definition ex_skipped_header :: string where
  "ex_skipped_header = ''Skipped array                              I   N=           7''"

definition ex_wanted :: string where
  "ex_wanted = ''Total Energy                               R      1.5''"

theorem unmatched_array_passed_over_witness:
  "sane_header ex_skipped_header \<and>
   \<not> label_matches lib0 (Some [''Total Energy'']) (header_label ex_skipped_header) \<and>
   data_line ''           1           2           3           4           5           6'' \<and>
   data_line ''           7'' \<and>
   load_fchk_field lib0 (Some [''Total Energy''])
     [ex_skipped_header,
      ''           1           2           3           4           5           6'',
      ''           7'',
      ex_wanted]
   = (Inr (''Total Energy'', RealV (3 / 2)), [])"
proof -
  have h1: "sane_header ex_skipped_header"
    by (simp add: ex_skipped_header_def sane_header_def str_split_def isspace_def type_code_def)
  have h2: "\<not> label_matches lib0 (Some [''Total Energy'']) (header_label ex_skipped_header)"
    by (simp add: ex_skipped_header_def label_matches_def header_label_def str_strip_def
        isspace_def lib0_def)
  have d1: "data_line ''           1           2           3           4           5           6''"
    by (simp add: data_line_def str_split_def isspace_def)
  have d2: "data_line ''           7''"
    by (simp add: data_line_def str_split_def isspace_def)
  have h3: "\<forall>l \<in> set [''           1           2           3           4           5           6'',
      ''           7'']. data_line l"
    using d1 d2 by simp
  have w: "load_fchk_field lib0 (Some [''Total Energy'']) [ex_wanted]
      = (Inr (''Total Energy'', RealV (3 / 2)), [])"
    by (simp add: ex_wanted_def Let_def str_split_def str_strip_def isspace_def type_code_def
        label_matches_def read_field_def lib0_def dec_real_def dec_fixed_def dec_nat_def
        digit_of_def is_exp_mark_def)
  from unmatched_array_passed_over [OF h1 h2 h3, of "[ex_wanted]"] w
  have "load_fchk_field lib0 (Some [''Total Energy''])
     ([ex_skipped_header] @
      [''           1           2           3           4           5           6'',
       ''           7''] @ [ex_wanted])
   = (Inr (''Total Energy'', RealV (3 / 2)), [])"
    by (simp del: load_fchk_field.simps)
  with h1 h2 d1 d2 show ?thesis by (simp del: load_fchk_field.simps)
qed

text \<open>
  C1 as the specification states it fails. Here the header declares 7 values and one
  line with 3 values follows. The length-driven loop would take the four missing values
  from the next line and stop at its first word; the code never reads the 7 and returns
  the field of that line.
\<close>

theorem unmatched_array_not_length_driven:
  "load_fchk_field lib0 (Some [''Total Energy''])
     [ex_skipped_header, ''           1           2           3'', ex_wanted]
     = (Inr (''Total Energy'', RealV (3 / 2)), []) \<and>
   spec_load_fchk_field lib0 (Some [''Total Energy''])
     [ex_skipped_header, ''           1           2           3'', ex_wanted]
     = (Inl (LitError ''Could not interpret: Total''), [])"
  by (simp add: ex_skipped_header_def ex_wanted_def Let_def str_split_def str_strip_def
      isspace_def type_code_def label_matches_def read_field_def read_array_def lib0_def
      dec_real_def dec_fixed_def dec_nat_def dec_int_def to_int64_def digit_of_def
      is_exp_mark_def eval_nat_numeral)

subsection \<open>C2: dense to triangular and back\<close>

text \<open>The number of elements of the lower triangle of \<open>n\<close> rows, and the rows \<open>r\<close> to
  \<open>n - 1\<close> of the lower triangle of \<open>M\<close>, each cut at the diagonal, one after another.\<close>

definition tri :: "nat \<Rightarrow> nat" where
  "tri n = (n * (n + 1)) div 2"

lemma tri_twice: "2 * tri n = n * (n + 1)"
  by (simp add: tri_def)

lemma tri_Suc: "tri (Suc n) = tri n + n + 1"
proof -
  have "2 * tri (Suc n) = 2 * (tri n + n + 1)"
    using tri_twice [of n] tri_twice [of "Suc n"] by (simp add: algebra_simps)
  then show ?thesis by simp
qed

lemma tri_0: "tri 0 = 0" by (simp add: tri_def)

lemma tri_mono: "a \<le> b \<Longrightarrow> tri a \<le> tri b"
  by (induction b) (auto simp: tri_Suc le_Suc_eq)

lemma np_round_of_nat: "np_round (real n) = int n"
  by (simp add: np_round_def Let_def)

lemma nrow_of_tri:
  "nat (np_round ((sqrt (1 + 8 * real (tri n)) - 1) / 2)) = n"
proof -
  have "1 + 8 * real (tri n) = 1 + 4 * real (2 * tri n)" by simp
  also have "\<dots> = 1 + 4 * real (n * (n + 1))" by (simp only: tri_twice)
  also have "\<dots> = (2 * real n + 1)\<^sup>2" by (simp add: power2_eq_square algebra_simps)
  finally have "sqrt (1 + 8 * real (tri n)) = 2 * real n + 1" by simp
  then have "(sqrt (1 + 8 * real (tri n)) - 1) / 2 = real n" by simp
  then show ?thesis by (simp add: np_round_of_nat)
qed

lemma triangle_cols_above:
  "\<forall>j \<in> set js. i < j \<Longrightarrow> triangle_cols M i js st = Inr st"
  by (induction js) (cases st, auto)+

lemma triangle_cols_row:
  assumes "i < n" and "i < length (M ! i)"
  shows "j0 \<le> i + 1 \<Longrightarrow> k + (i + 1 - j0) \<le> length nm \<Longrightarrow>
    \<exists>nm'. triangle_cols M i [j0..<n] (nm, k) = Inr (nm', k + (i + 1 - j0)) \<and>
      length nm' = length nm \<and>
      take (k + (i + 1 - j0)) nm' = take k nm @ take (i + 1 - j0) (drop j0 (M ! i))"
proof (induction "i + 1 - j0" arbitrary: j0 nm k)
  case 0
  then have "\<forall>j \<in> set [j0..<n]. i < j" by auto
  from triangle_cols_above [OF this] 0 show ?case by simp
next
  case (Suc d)
  then have j0: "j0 \<le> i" "j0 < n" "j0 < length (M ! i)" using assms by auto
  have d: "d = i + 1 - Suc j0" using Suc(2) by simp
  have k: "Suc k + (i + 1 - Suc j0) \<le> length (nm[k := M ! i ! j0])" "k < length nm"
    using Suc(2,4) by auto
  from Suc(1) [OF d _ k(1)] j0 obtain nm' where
    r: "triangle_cols M i [Suc j0..<n] (nm[k := M ! i ! j0], Suc k) = Inr (nm', Suc k + (i + 1 - Suc j0))"
    and l: "length nm' = length nm"
    and t: "take (Suc k + (i + 1 - Suc j0)) nm' = take (Suc k) (nm[k := M ! i ! j0]) @ take (i + 1 - Suc j0) (drop (Suc j0) (M ! i))"
    by auto
  have e: "Suc k + (i + 1 - Suc j0) = k + (i + 1 - j0)" using j0 by simp
  have s: "take (i + 1 - j0) (drop j0 (M ! i)) = M ! i ! j0 # take (i + 1 - Suc j0) (drop (Suc j0) (M ! i))"
  proof -
    have "i + 1 - j0 = Suc (i + 1 - Suc j0)" using j0 by simp
    then show ?thesis using j0(3) by (simp add: Cons_nth_drop_Suc [symmetric])
  qed
  have u: "take (Suc k) (nm[k := M ! i ! j0]) = take k nm @ [M ! i ! j0]"
    using k(2) by (simp add: take_Suc_conv_app_nth)
  have "triangle_cols M i [j0..<n] (nm, k) = Inr (nm', Suc k + (i + 1 - Suc j0))"
    using r j0 by (simp add: upt_conv_Cons bnd_def item_def)
  then have res: "triangle_cols M i [j0..<n] (nm, k) = Inr (nm', k + (i + 1 - j0))"
    by (simp only: e)
  have "take (k + (i + 1 - j0)) nm' = take k nm @ take (i + 1 - j0) (drop j0 (M ! i))"
    using t by (simp only: e s u) simp
  with res l show ?case by blast
qed

definition lower_rows :: "matrix \<Rightarrow> nat \<Rightarrow> nat \<Rightarrow> real list" where
  "lower_rows M r n = concat (map (\<lambda>i. take (i + 1) (M ! i)) [r..<n])"

lemma triangle_rows_square:
  assumes "length M = n" and "\<forall>row \<in> set M. length row = n"
  shows "r \<le> n \<Longrightarrow> length nm = tri n \<Longrightarrow>
    \<exists>nm'. triangle_rows M n [r..<n] (nm, tri r) = Inr (nm', tri n) \<and>
      length nm' = length nm \<and>
      take (tri n) nm' = take (tri r) nm @ lower_rows M r n"
proof (induction "n - r" arbitrary: r nm)
  case 0
  then show ?case by (simp add: lower_rows_def)
next
  case (Suc d)
  then have r: "r < n" by simp
  with assms have len: "length (M ! r) = n" by simp
  have b: "tri r + (r + 1 - 0) \<le> length nm"
    using tri_mono [of "Suc r" n] r Suc(4) by (simp add: tri_Suc)
  from triangle_cols_row [of r n M 0 "tri r" nm] r len b obtain nm1 where
    c: "triangle_cols M r [0..<n] (nm, tri r) = Inr (nm1, tri (Suc r))"
    and l1: "length nm1 = length nm"
    and t1: "take (tri (Suc r)) nm1 = take (tri r) nm @ take (r + 1) (M ! r)"
    by (auto simp: tri_Suc)
  have d: "d = n - Suc r" using Suc(2) by simp
  from Suc(1) [OF d, of nm1] r l1 Suc(4) obtain nm' where
    rr: "triangle_rows M n [Suc r..<n] (nm1, tri (Suc r)) = Inr (nm', tri n)"
    and l: "length nm' = length nm1"
    and t: "take (tri n) nm' = take (tri (Suc r)) nm1 @ lower_rows M (Suc r) n"
    by auto
  have "triangle_rows M n [r..<n] (nm, tri r) = Inr (nm', tri n)"
    using r c rr by (simp add: upt_conv_Cons bnd_def)
  moreover have "lower_rows M r n = take (r + 1) (M ! r) @ lower_rows M (Suc r) n"
    using r by (simp add: lower_rows_def upt_conv_Cons)
  ultimately show ?case using l l1 t t1 by simp
qed

lemma get_TriangleMat_square:
  assumes "length M = n" and "\<forall>row \<in> set M. length row = n"
  shows "get_TriangleMat M = Inr (lower_rows M 0 n) \<and> length (lower_rows M 0 n) = tri n"
proof -
  from triangle_rows_square [OF assms, of 0 "replicate (tri n) 0"] obtain nm' where
    r: "triangle_rows M n [0..<n] (replicate (tri n) 0, 0) = Inr (nm', tri n)"
    and l: "length nm' = tri n"
    and t: "take (tri n) nm' = lower_rows M 0 n"
    by (auto simp: tri_0)
  from l t have "nm' = lower_rows M 0 n" by simp
  with r l assms(1) show ?thesis
    by (simp add: get_TriangleMat_def Let_def bnd_def tri_def)
qed


lemma lower_rows_Suc:
  "r \<le> i \<Longrightarrow> lower_rows M r (Suc i) = lower_rows M r i @ take (i + 1) (M ! i)"
  by (simp add: lower_rows_def)

lemma length_lower_rows:
  assumes "length M = n" and "\<forall>row \<in> set M. length row = n"
  shows "i \<le> n \<Longrightarrow> length (lower_rows M 0 i) = tri i"
proof (induction i)
  case 0
  then show ?case by (simp add: lower_rows_def tri_0)
next
  case (Suc i)
  with assms have "length (M ! i) = n" by simp
  with Suc show ?case by (simp add: lower_rows_Suc tri_Suc)
qed

lemma lower_rows_split:
  "i < n \<Longrightarrow> lower_rows M 0 n = lower_rows M 0 i @ take (i + 1) (M ! i) @ lower_rows M (Suc i) n"
proof -
  assume "i < n"
  then have "[0..<n] = [0..<i] @ i # [Suc i..<n]"
    using upt_add_eq_append [of 0 i "n - i"] by (simp add: upt_conv_Cons)
  then show ?thesis by (simp add: lower_rows_def)
qed

lemma lower_rows_segment:
  assumes "length M = n" and "\<forall>row \<in> set M. length row = n" and "i < n"
  shows "take (i + 1) (drop (tri i) (lower_rows M 0 n)) = take (i + 1) (M ! i)"
proof -
  have l: "length (lower_rows M 0 i) = tri i"
    using length_lower_rows [OF assms(1,2), of i] assms(3) by simp
  have r: "length (M ! i) = n" using assms by simp
  show ?thesis
    using assms(3) r by (simp add: lower_rows_split [OF assms(3), of M] l)
qed

lemma dense_rows_square:
  assumes sq: "length M = n" "\<forall>row \<in> set M. length row = n"
    and sym: "\<forall>i<n. \<forall>j<n. M ! i ! j = M ! j ! i"
    and seg: "\<forall>i<n. take (i + 1) (drop (tri i) T) = take (i + 1) (M ! i)"
  shows "r \<le> n \<Longrightarrow> length R = n \<Longrightarrow> \<forall>a<n. length (R ! a) = n \<Longrightarrow>
    \<forall>a<r. \<forall>b<r. R ! a ! b = M ! a ! b \<Longrightarrow> dense_rows T [r..<n] (tri r) R = Inr M"
proof (induction "n - r" arbitrary: r R)
  case 0
  then have rn: "r = n" by simp
  have "R = M"
  proof (rule nth_equalityI)
    show "length R = length M" using 0 sq by simp
  next
    fix a assume a: "a < length R"
    show "R ! a = M ! a"
    proof (rule nth_equalityI)
      show "length (R ! a) = length (M ! a)" using a 0 sq by simp
    next
      fix b assume "b < length (R ! a)"
      with a 0 rn show "R ! a ! b = M ! a ! b" by simp
    qed
  qed
  with rn show ?case by simp
next
  case (Suc d)
  then have r: "r < n" by simp
  define vs where "vs = take (r + 1) (M ! r)"
  have lr: "length (M ! r) = n" using sq r by simp
  have lvs: "length vs = r + 1" using lr r by (simp add: vs_def)
  have vsn: "\<And>b. b \<le> r \<Longrightarrow> vs ! b = M ! r ! b" by (simp add: vs_def)
  define R1 where "R1 = set_row_prefix R r vs"
  define R2 where "R2 = set_col_prefix R1 r vs"
  have l1: "length R1 = n" using Suc(4) by (simp add: R1_def set_row_prefix_def)
  have row1: "\<And>a. a < n \<Longrightarrow> R1 ! a = (if a = r then vs @ drop (r + 1) (R ! r) else R ! a)"
    using Suc(4) lvs by (simp add: R1_def set_row_prefix_def nth_list_update)
  have l2: "length R2 = n" using l1 by (simp add: R2_def set_col_prefix_def)
  have row2: "\<And>a. a < n \<Longrightarrow> R2 ! a = (if a \<le> r then (R1 ! a)[r := vs ! a] else R1 ! a)"
    using l1 lvs by (auto simp: R2_def set_col_prefix_def)
  have len2: "\<forall>a<n. length (R2 ! a) = n"
    using Suc(5) r lvs by (auto simp: row1 row2)
  have ent: "\<forall>a<Suc r. \<forall>b<Suc r. R2 ! a ! b = M ! a ! b"
  proof (intro allI impI)
    fix a b assume a: "a < Suc r" and b: "b < Suc r"
    then have an: "a < n" "b < n" using r by auto
    have lra: "length (R ! a) = n" using Suc(5) an by simp
    show "R2 ! a ! b = M ! a ! b"
    proof (cases "b = r")
      case True
      have "R2 ! a ! r = vs ! a"
        using a an r lra lvs by (simp add: row1 row2)
      also have "\<dots> = M ! r ! a" using a vsn by simp
      also have "\<dots> = M ! a ! r" using sym r an by simp
      finally show ?thesis using True by simp
    next
      case False
      with b have br: "b < r" by simp
      show ?thesis
      proof (cases "a = r")
        case True
        then have "R2 ! a ! b = vs ! b"
          using br r lvs by (simp add: row1 row2 nth_append)
        with True br vsn show ?thesis by simp
      next
        case False
        with a have ar: "a < r" by simp
        then have "R2 ! a ! b = R ! a ! b"
          using br an by (simp add: row1 row2)
        with Suc(6) ar br show ?thesis by simp
      qed
    qed
  qed
  have d: "d = n - Suc r" using Suc(2) by simp
  from Suc(1) [OF d _ l2 len2 ent] r
  have ih: "dense_rows T [Suc r..<n] (tri (Suc r)) R2 = Inr M" by simp
  have s: "take (r + 1) (drop (tri r) T) = vs" using seg r by (simp add: vs_def)
  have b: "broadcast_to (r + 1) vs = Inr vs" using lvs by (simp add: broadcast_to_def)
  have "dense_rows T [r..<n] (tri r) R
      = dense_rows T [Suc r..<n] (tri r + r + 1) (set_col_prefix (set_row_prefix R r vs) r vs)"
    using r s b by (simp add: upt_conv_Cons Let_def bnd_def)
  with ih show ?case by (simp add: tri_Suc R1_def R2_def)
qed

lemma triangle_to_dense_lower_rows:
  assumes sq: "length M = n" "\<forall>row \<in> set M. length row = n"
    and sym: "\<forall>i<n. \<forall>j<n. M ! i ! j = M ! j ! i"
  shows "triangle_to_dense (lower_rows M 0 n) = Inr M"
proof -
  have l: "length (lower_rows M 0 n) = tri n"
    using length_lower_rows [OF sq, of n] by simp
  have seg: "\<forall>i<n. take (i + 1) (drop (tri i) (lower_rows M 0 n)) = take (i + 1) (M ! i)"
    using lower_rows_segment [OF sq] by blast
  have "dense_rows (lower_rows M 0 n) [0..<n] (tri 0) (replicate n (replicate n 0)) = Inr M"
    by (rule dense_rows_square [OF sq sym seg]) simp_all
  then show ?thesis by (simp add: triangle_to_dense_def l nrow_of_tri tri_0)
qed

text \<open>
  C2. For every symmetric matrix \<open>M\<close> of \<open>n\<close> rows and \<open>n\<close> columns, \<^verbatim>\<open>_get_TriangleMat\<close>
  returns the rows 0 to \<open>n - 1\<close> of the lower triangle in order, \<open>n (n + 1) / 2\<close> elements;
  \<^verbatim>\<open>_triangle_to_dense\<close> recovers \<open>n\<close> from that length as \<open>round((sqrt(1 + 8 L) - 1) / 2)\<close>
  and returns exactly \<open>M\<close>. (The square root is the real one; \<open>n = 0\<close> is included.)
\<close>

theorem triangle_roundtrip:
  assumes "length M = n" and "\<forall>row \<in> set M. length row = n"
    and "\<forall>i<n. \<forall>j<n. M ! i ! j = M ! j ! i"
  shows "get_TriangleMat M = Inr (lower_rows M 0 n) \<and>
         length (lower_rows M 0 n) = (n * (n + 1)) div 2 \<and>
         nat (np_round ((sqrt (1 + 8 * real (length (lower_rows M 0 n))) - 1) / 2)) = n \<and>
         triangle_to_dense (lower_rows M 0 n) = Inr M"
proof -
  from get_TriangleMat_square [OF assms(1,2)]
  have g: "get_TriangleMat M = Inr (lower_rows M 0 n)"
    and l: "length (lower_rows M 0 n) = tri n" by simp_all
  from l have "nat (np_round ((sqrt (1 + 8 * real (length (lower_rows M 0 n))) - 1) / 2)) = n"
    by (simp only: nrow_of_tri)
  with g l triangle_to_dense_lower_rows [OF assms] show ?thesis
    by (simp add: tri_def)
qed

theorem triangle_roundtrip_witness:
  "get_TriangleMat [[1, 2, 4], [2, 3, 5], [4, 5, 6]] = Inr [1, 2, 3, 4, 5, 6] \<and>
   triangle_to_dense [1, 2, 3, 4, 5, 6] = Inr [[1, 2, 4], [2, 3, 5], [4, 5, 6]]"
proof -
  have s: "\<forall>i<3. \<forall>j<3. [[1, 2, 4], [2, 3, 5], [4, 5, 6::real]] ! i ! j
      = [[1, 2, 4], [2, 3, 5], [4, 5, 6]] ! j ! i"
    by (simp add: eval_nat_numeral less_Suc_eq)
  have f: "lower_rows [[1, 2, 4], [2, 3, 5], [4, 5, 6]] 0 3 = [1, 2, 3, 4, 5, 6]"
    by (simp add: lower_rows_def eval_nat_numeral)
  from triangle_roundtrip [of "[[1, 2, 4], [2, 3, 5], [4, 5, 6]]" 3, OF _ _ s]
  show ?thesis by (simp add: f)
qed

subsection \<open>C6: the two permutations of the quadrupole\<close>

text \<open>
  C6, as the code has it. \<^verbatim>\<open>load_one\<close> indexes the quadrupole of the file with
  \<^verbatim>\<open>[0, 3, 4, 1, 5, 2]\<close>, and \<^verbatim>\<open>_sort_quadrupole\<close> is the inverse of that on six components:
  one after the other, in either order, gives back the six components.
\<close>

theorem quadrupole_permutations_inverse:
  assumes "length q = 6"
  shows "bnd (take_indices q [0, 3, 4, 1, 5, 2]) sort_quadrupole = Inr q \<and>
         bnd (sort_quadrupole q) (\<lambda>s. take_indices s [0, 3, 4, 1, 5, 2]) = Inr q"
proof -
  from assms obtain a b c d e f where "q = [a, b, c, d, e, f]"
    by (auto simp: eval_nat_numeral length_Suc_conv)
  then show ?thesis
    by (simp add: bnd_def take_indices_def sort_quadrupole_def item_def eval_nat_numeral)
qed

theorem quadrupole_permutations_inverse_witness:
  "length [1, 2, 3, 4, 5, 6 :: real] = 6 \<and>
   take_indices [1, 2, 3, 4, 5, 6 :: real] [0, 3, 4, 1, 5, 2] = Inr [1, 4, 5, 2, 6, 3] \<and>
   sort_quadrupole [1, 4, 5, 2, 6, 3] = Inr [1, 2, 3, 4, 5, 6] \<and>
   sort_quadrupole [1, 2, 3, 4, 5, 6] = Inr [1, 4, 6, 2, 3, 5] \<and>
   take_indices [1, 4, 6, 2, 3, 5 :: real] [0, 3, 4, 1, 5, 2] = Inr [1, 2, 3, 4, 5, 6]"
  using quadrupole_permutations_inverse [of "[1, 2, 3, 4, 5, 6]"]
  by (simp add: bnd_def take_indices_def sort_quadrupole_def item_def eval_nat_numeral)

text \<open>
  The example of the specification, "input [1,2,3,4,5,6] gives [1,4,6,2,3,5]", is not
  what the index map of \<^verbatim>\<open>load_one\<close> gives: that is [1,4,5,2,6,3], the file's order
  xx, yy, zz, xy, xz, yz taken to xx, xy, xz, yy, yz, zz, as the comment in the code
  says. [1,4,6,2,3,5] is what \<^verbatim>\<open>_sort_quadrupole\<close> gives (see the witness above).
\<close>

theorem quadrupole_load_example_differs:
  "take_indices [1, 2, 3, 4, 5, 6 :: real] [0, 3, 4, 1, 5, 2] = Inr [1, 4, 5, 2, 6, 3] \<and>
   take_indices [1, 2, 3, 4, 5, 6 :: real] [0, 3, 4, 1, 5, 2] \<noteq> Inr [1, 4, 6, 2, 3, 5]"
  by (simp add: take_indices_def eval_nat_numeral)

subsection \<open>C10: \<^verbatim>\<open>_get_TypeShell\<close> under the invariant of shells\<close>

text \<open>The invariant of a shell, as the data model states it: one or two angular momenta,
  a kind for each, a coefficient matrix with a row for each exponent and a column for
  each angular momentum, and the momenta 0 and 1 when there are two.\<close>

definition shell_inv :: "Shell \<Rightarrow> bool" where
  "shell_inv sh =
     ((length (angmoms sh) = 1 \<or> length (angmoms sh) = 2) \<and>
      length (kinds sh) = length (angmoms sh) \<and>
      length (coeffs sh) = length (exponents sh) \<and>
      list_all (\<lambda>row. length row = length (angmoms sh)) (coeffs sh) \<and>
      (length (angmoms sh) = 2 \<longrightarrow> angmoms sh = [0, 1]))"

lemma matrix_size_uniform:
  "list_all (\<lambda>row. length row = c) M \<Longrightarrow> matrix_size M = c * length M"
  by (induction M) (simp_all add: matrix_size_def)

lemma get_TypeShell_unbound:
  "get_TypeShell sh = Inl UnboundLocalError \<longleftrightarrow>
     (length (angmoms sh) = 2 \<and> 2 * length (exponents sh) \<noteq> matrix_size (coeffs sh)) \<or>
     (length (angmoms sh) \<noteq> 1 \<and> length (angmoms sh) \<noteq> 2)"
  by (auto simp: get_TypeShell_def bnd_def item_def Let_def split: if_splits sum.splits option.splits)

text \<open>
  C10. Under the invariant \<^verbatim>\<open>_get_TypeShell\<close> returns a code: for one angular momentum
  the momentum, negated exactly when the kind is \<^verbatim>\<open>'p'\<close> and the momentum exceeds 1; for
  two angular momenta the size of the coefficient matrix is twice the number of
  exponents and the code is -1. The read of \<^verbatim>\<open>kind\<close> before any assignment happens for
  exactly the shells described in \<open>get_TypeShell_unbound\<close>, none of which satisfies the
  invariant.
\<close>

theorem get_TypeShell_total:
  assumes "shell_inv sh"
  shows "(length (angmoms sh) = 1 \<longrightarrow>
            get_TypeShell sh =
              Inr (if kinds sh ! 0 = ''p'' \<and> 1 < angmoms sh ! 0
                   then - (angmoms sh ! 0) else angmoms sh ! 0)) \<and>
         (length (angmoms sh) = 2 \<longrightarrow>
            2 * length (exponents sh) = matrix_size (coeffs sh) \<and> get_TypeShell sh = Inr (- 1)) \<and>
         (\<exists>k. get_TypeShell sh = Inr k) \<and>
         get_TypeShell sh \<noteq> Inl UnboundLocalError"
proof -
  have m: "matrix_size (coeffs sh) = length (angmoms sh) * length (exponents sh)"
    using assms matrix_size_uniform [of "length (angmoms sh)" "coeffs sh"]
    by (simp add: shell_inv_def)
  from assms consider "length (angmoms sh) = 1" "length (kinds sh) = 1"
    | "length (angmoms sh) = 2"
    by (auto simp: shell_inv_def)
  then show ?thesis
  proof cases
    case 1
    then show ?thesis
      by (simp add: get_TypeShell_def bnd_def item_def Let_def)
  next
    case 2
    with m show ?thesis
      by (simp add: get_TypeShell_def bnd_def item_def Let_def)
  qed
qed

definition ex_sp_shell :: Shell where
  "ex_sp_shell = \<lparr>icenter = 0, angmoms = [0, 1], kinds = [''c'', ''c''],
     exponents = [3, 1], coeffs = [[1, 2], [3, 4]]\<rparr>"

definition ex_pure_d_shell :: Shell where
  "ex_pure_d_shell = \<lparr>icenter = 0, angmoms = [2], kinds = [''p''],
     exponents = [1], coeffs = [[1]]\<rparr>"

definition ex_cart_d_shell :: Shell where
  "ex_cart_d_shell = \<lparr>icenter = 0, angmoms = [2], kinds = [''c''],
     exponents = [1], coeffs = [[1]]\<rparr>"

theorem get_TypeShell_total_witness:
  "shell_inv ex_sp_shell \<and> get_TypeShell ex_sp_shell = Inr (- 1) \<and>
   shell_inv ex_pure_d_shell \<and> get_TypeShell ex_pure_d_shell = Inr (- 2)"
proof -
  have a: "shell_inv ex_sp_shell" by (simp add: shell_inv_def ex_sp_shell_def)
  have b: "shell_inv ex_pure_d_shell" by (simp add: shell_inv_def ex_pure_d_shell_def)
  from get_TypeShell_total [OF a] get_TypeShell_total [OF b] a b show ?thesis
    by (simp add: ex_sp_shell_def ex_pure_d_shell_def)
qed

subsection \<open>C7: the counts of pure d and f shells\<close>

text \<open>
  C7 does not hold of the code. \<^verbatim>\<open>_dump_basisInfo\<close> counts in \<^verbatim>\<open>pureDshells\<close> the shells of
  type code 2 and in \<^verbatim>\<open>pureFshells\<close> those of type code 3, which \<^verbatim>\<open>_get_TypeShell\<close> gives to
  Cartesian shells; a pure d shell has the code -2. For a basis of one pure d shell the
  count written is 0, and for one Cartesian d shell it is 1.
\<close>

lemma shells_loop_pure_d:
  "shells_loop [ex_pure_d_shell] [[0, 0, 0]] [0]
     \<lparr>largestDegreeContraction = 0, shellTypes = [], numberPrimitivesPerShell = [],
      shellAtomMap = [], primitiveExp = [], contractionCoeff = [],
      spcontractionCoeff = [], coordinatesShell = [], totalprim = 0\<rparr> =
   Inr \<lparr>largestDegreeContraction = 1, shellTypes = [- 2], numberPrimitivesPerShell = [1],
        shellAtomMap = [1], primitiveExp = [1], contractionCoeff = [1],
        spcontractionCoeff = [0], coordinatesShell = [[0, 0, 0]], totalprim = 1\<rparr>"
  by (simp add: ex_pure_d_shell_def get_TypeShell_def matrix_size_def bnd_def item_def
      py_item_def Let_def)

lemma shells_loop_cart_d:
  "shells_loop [ex_cart_d_shell] [[0, 0, 0]] [0]
     \<lparr>largestDegreeContraction = 0, shellTypes = [], numberPrimitivesPerShell = [],
      shellAtomMap = [], primitiveExp = [], contractionCoeff = [],
      spcontractionCoeff = [], coordinatesShell = [], totalprim = 0\<rparr> =
   Inr \<lparr>largestDegreeContraction = 1, shellTypes = [2], numberPrimitivesPerShell = [1],
        shellAtomMap = [1], primitiveExp = [1], contractionCoeff = [1],
        spcontractionCoeff = [0], coordinatesShell = [[0, 0, 0]], totalprim = 1\<rparr>"
  by (simp add: ex_cart_d_shell_def get_TypeShell_def matrix_size_def bnd_def item_def
      py_item_def Let_def)

theorem pure_d_shell_not_counted:
  "get_TypeShell ex_pure_d_shell = Inr (- 2) \<and>
   dump_basisInfo \<lparr>shells = [ex_pure_d_shell], nbasis = 5\<rparr> [[0, 0, 0]] [] =
     Inr [IntScalar ''Number of basis functions'' 5,
          IntScalar ''Number of independent functions'' 5,
          IntScalar ''Number of contracted shells'' 1,
          IntScalar ''Number of primitive shells'' 1,
          IntScalar ''Pure/Cartesian d shells'' 0,
          IntScalar ''Pure/Cartesian f shells'' 0,
          IntScalar ''Highest angular momentum'' 2,
          IntScalar ''Largest degree of contraction'' 1,
          IntArray ''Shell types'' [- 2],
          IntArray ''Number of primitives per shell'' [1],
          IntArray ''Shell to atom map'' [1],
          RealArray ''Primitive exponents'' [1],
          RealArray ''Contraction coefficients'' [1],
          RealArray ''Coordinates of each shell'' [0, 0, 0]] \<and>
   get_TypeShell ex_cart_d_shell = Inr 2 \<and>
   dump_basisInfo \<lparr>shells = [ex_cart_d_shell], nbasis = 6\<rparr> [[0, 0, 0]] [] =
     Inr [IntScalar ''Number of basis functions'' 6,
          IntScalar ''Number of independent functions'' 6,
          IntScalar ''Number of contracted shells'' 1,
          IntScalar ''Number of primitive shells'' 1,
          IntScalar ''Pure/Cartesian d shells'' 1,
          IntScalar ''Pure/Cartesian f shells'' 0,
          IntScalar ''Highest angular momentum'' 2,
          IntScalar ''Largest degree of contraction'' 1,
          IntArray ''Shell types'' [2],
          IntArray ''Number of primitives per shell'' [1],
          IntArray ''Shell to atom map'' [1],
          RealArray ''Primitive exponents'' [1],
          RealArray ''Contraction coefficients'' [1],
          RealArray ''Coordinates of each shell'' [0, 0, 0]]"
proof -
  have "get_TypeShell ex_pure_d_shell = Inr (- 2)" "get_TypeShell ex_cart_d_shell = Inr 2"
    by (simp_all add: get_TypeShell_def ex_pure_d_shell_def ex_cart_d_shell_def bnd_def
        item_def)
  then show ?thesis
    by (simp add: dump_basisInfo_def shells_loop_pure_d shells_loop_cart_d bnd_def item_def
        amax_abs_def Let_def dump_integer_scalars_def dump_integer_arrays_def
        dump_real_arrays_def del: shells_loop.simps)
qed

subsection \<open>C8: the label of a post-SCF density\<close>

text \<open>
  C8 does not hold of the code. When none of MP2, MP3, CC and CI occurs in the level of
  theory, or the record has none, \<^verbatim>\<open>namelevel\<close> is never assigned, and the title of a
  \<^verbatim>\<open>post_scf\<close> or \<^verbatim>\<open>post_scf_spin\<close> density raises UnboundLocalError: there is no default
  label and nothing is written. With a level of theory that names one of the four, and
  for the keys \<^verbatim>\<open>scf\<close> and \<^verbatim>\<open>scf_spin\<close>, the density is written.
\<close>

lemma str_upper_examples: "str_upper ''hf'' = ''HF''" "str_upper ''None'' = ''NONE''" "str_upper ''ccsd'' = ''CCSD''"
  by (simp_all add: str_upper_def upper_char_def)

theorem post_scf_density_unbound:
  "dump_rdms [(''post_scf'', [[1]])] (Some ''hf'') [] = Inl UnboundLocalError \<and>
   dump_rdms [(''post_scf_spin'', [[1]])] None [] = Inl UnboundLocalError \<and>
   dump_rdms [(''post_scf'', [[1]])] (Some ''ccsd'') [] = Inr [RealArray ''Total CC Density'' [1]] \<and>
   dump_rdms [(''scf'', [[1]])] None [] = Inr [RealArray ''Total SCF Density'' [1]]"
  by (simp add: dump_rdms_def str_upper_examples Let_def bnd_def item_def get_TriangleMat_def rdm_title_def
      dump_real_arrays_def)

end
